theory Spec2Isabelle
  imports Main "HOL-Library.Multiset"
begin

section \<open>Clinic server: values, rows and the store\<close>

text \<open>
  The server keeps three SQLite tables (users, patients, visits) in one database and
  answers JSON requests; the store is the only state shared between requests. The
  handlers that write, and the report summary, are modelled here; the two patient
  listings and the logo redirect only read and are left out, and so is the migration that
  adds missing columns, which does nothing on the schema the server itself creates.

  A request body is a JSON object; destructuring a key that is absent gives \<open>undefined\<close>.
  Numbers are modelled as integers, and \<open>JObj\<close> stands for a JSON object (arrays are left
  out). A value is stored with the affinity of its column: a text that reads as a number
  becomes that number in the INTEGER, REAL, DATE and DATETIME columns, and a number
  becomes its text in the TEXT columns. The same conversion is applied to a parameter that
  is compared with a column.
\<close>

datatype js = JUndefined | JNull | JNum int | JStr string | JBool bool | JObj

type_synonym json = "string \<Rightarrow> js"

datatype sqlval = SNull | SInt int | SText string

datatype sqlite_code =
  CONSTRAINT_UNIQUE | CONSTRAINT_NOTNULL | CONSTRAINT_FOREIGNKEY | IOERR

datatype error = TypeError | IllegalArguments | SqliteError sqlite_code

text \<open>JavaScript truthiness, as used by \<open>!x\<close>, \<open>a || b\<close> and \<open>a && b\<close>.\<close>

fun truthy :: "js \<Rightarrow> bool" where
  "truthy JUndefined = False"
| "truthy JNull = False"
| "truthy (JNum n) = (n \<noteq> 0)"
| "truthy (JStr s) = (s \<noteq> [])"
| "truthy (JBool b) = b"
| "truthy JObj = True"

definition js_or :: "js \<Rightarrow> js \<Rightarrow> js" where
  "js_or a b = (if truthy a then a else b)"

text \<open>
  Binding a statement parameter: numbers, strings and null bind, and undefined binds as
  NULL. A boolean does not bind, and an object is not a value for a positional parameter:
  on either, \<open>run\<close> throws before the statement executes.
\<close>

fun bindable :: "js \<Rightarrow> bool" where
  "bindable (JBool b) = False"
| "bindable JObj = False"
| "bindable v = True"

fun to_sql :: "js \<Rightarrow> sqlval" where
  "to_sql (JNum n) = SInt n"
| "to_sql (JStr s) = SText s"
| "to_sql v = SNull"

record user =
  u_id :: int
  username :: sqlval
  password :: sqlval
  full_name :: sqlval
  role :: sqlval

record patient =
  p_id :: int
  mrn :: sqlval
  name :: sqlval
  age :: sqlval
  gender :: sqlval
  contact :: sqlval
  patient_type :: sqlval
  conditions :: sqlval
  region :: sqlval
  zone :: sqlval
  woreda :: sqlval
  kebele :: sqlval
  treatment_type :: sqlval
  diabetes_type :: sqlval
  cvd_risk :: sqlval
  cvd_treatment_type :: sqlval
  created_at :: sqlval

record visit =
  v_id :: int
  patient_id :: sqlval
  visit_date :: sqlval
  systolic_bp :: sqlval
  diastolic_bp :: sqlval
  heart_rate :: sqlval
  temperature :: sqlval
  respiratory_rate :: sqlval
  spo2 :: sqlval
  blood_sugar_level :: sqlval
  hba1c :: sqlval
  creatinine :: sqlval
  cholesterol :: sqlval
  triglycerides :: sqlval
  urinalysis :: sqlval
  weight :: sqlval
  v_notes :: sqlval
  complications :: sqlval

text \<open>
  The store: the rows of each table in insertion order, and for each table the largest
  rowid ever handed out (the AUTOINCREMENT sequence).
\<close>

record db =
  users :: "user list"
  patients :: "patient list"
  visits :: "visit list"
  users_seq :: int
  patients_seq :: int
  visits_seq :: int

text \<open>
  What the handlers take from outside the store: whether the connection enforces the
  foreign key that the visits table declares, the clock (\<open>new Date().toISOString()\<close> and
  SQLite's \<open>DATE('now')\<close>), the random six-digit identifier, the password hash, SQLite's
  \<open>strftime\<close>, how SQLite reads a text as a number (if it is a numeric literal) and
  writes a number as text, and which statement of the request (counted from 0) hits a
  persistence failure such as an I/O error.
\<close>

record env =
  foreign_keys :: bool
  now_iso :: string
  date_now :: string
  random_mrn :: string
  hashSync :: "string \<Rightarrow> string"
  compareSync :: "string \<Rightarrow> string \<Rightarrow> bool"
  strftime :: "string \<Rightarrow> sqlval \<Rightarrow> sqlval"
  numeric_text :: "string \<Rightarrow> int option"
  real_text :: "int \<Rightarrow> string"
  fails :: "nat \<Rightarrow> bool"

record condition_counts =
  hypertension_only :: int
  diabetes_only :: int
  both :: int

record gender_counts =
  male :: int
  female :: int
  other :: int

record report =
  totalPatients :: nat
  newPatients :: nat
  repeatPatients :: nat
  conditionCounts :: condition_counts
  genderDistribution :: gender_counts
  genderByCondition_hypertension :: gender_counts
  genderByCondition_diabetes :: gender_counts
  recentVisits :: "(visit \<times> sqlval) list"

datatype body =
  ErrorBody string
| ErrorDetail string error
| UserBody int sqlval sqlval sqlval
| PatientCreated int sqlval
| VisitCreated int
| Success
| SuccessMessage string
| Summary report

datatype response = Response (status: nat) (payload: body)

definition next_rowid :: "int \<Rightarrow> int list \<Rightarrow> int" where
  "next_rowid seq ids = fold max ids seq + 1"

text \<open>
  Column affinity, for the columns as the CREATE TABLE statements declare them. In a
  column declared INTEGER, REAL, DATE or DATETIME a text that reads as a number is stored
  as the number, and any other value as it is. In a column declared TEXT a number is
  stored as its text. Numbers being integers here, \<open>numeric_text\<close> gives the number of a
  text that reads as a whole number, and \<open>real_text\<close> the text of a whole number.
\<close>

definition numeric_affinity :: "env \<Rightarrow> sqlval \<Rightarrow> sqlval" where
  "numeric_affinity e x =
     (case x of
        SText s \<Rightarrow> (case numeric_text e s of Some k \<Rightarrow> SInt k | None \<Rightarrow> SText s)
      | _ \<Rightarrow> x)"

definition text_affinity :: "env \<Rightarrow> sqlval \<Rightarrow> sqlval" where
  "text_affinity e x = (case x of SInt k \<Rightarrow> SText (real_text e k) | _ \<Rightarrow> x)"

section \<open>Statements\<close>

text \<open>
  A statement is atomic: it either fails with an error and leaves the store as it was, or
  returns a result with the new store. Code that runs several statements may throw after
  some of them have taken effect, so an action returns the store together with the error.
\<close>

type_synonym 'a stmt = "db \<Rightarrow> error + ('a \<times> db)"

type_synonym 'a action = "db \<Rightarrow> (error \<times> db) + ('a \<times> db)"

definition ret :: "'a \<Rightarrow> 'a action" where
  "ret r d = Inr (r, d)"

definition throw :: "error \<Rightarrow> 'a action" where
  "throw err d = Inl (err, d)"

definition thenDo :: "'a action \<Rightarrow> ('a \<Rightarrow> 'b action) \<Rightarrow> 'b action" where
  "thenDo m f d = (case m d of Inl x \<Rightarrow> Inl x | Inr (r, d') \<Rightarrow> f r d')"

text \<open>
  The \<open>k\<close>-th \<open>run\<close> of a request throws when a parameter does not bind, when the
  environment says that it hits a persistence failure, or when a declared constraint is
  violated (NOT NULL before UNIQUE).
\<close>

definition run :: "env \<Rightarrow> nat \<Rightarrow> js list \<Rightarrow> 'a stmt \<Rightarrow> 'a action" where
  "run e k params st d =
     (if \<not> list_all bindable params then Inl (TypeError, d)
      else if fails e k then Inl (SqliteError IOERR, d)
      else case st d of Inl err \<Rightarrow> Inl (err, d) | Inr r \<Rightarrow> Inr r)"

text \<open>\<open>db.transaction\<close>: the function runs between BEGIN and COMMIT; when it throws, the
  store is rolled back and the exception is thrown again.\<close>

definition transaction :: "'a action \<Rightarrow> 'a action" where
  "transaction f d = (case f d of Inl (err, d') \<Rightarrow> Inl (err, d) | Inr r \<Rightarrow> Inr r)"

text \<open>\<open>try { ... } catch (err) { ... }\<close> around a handler body.\<close>

definition try_catch :: "response action \<Rightarrow> (error \<Rightarrow> response) \<Rightarrow> db \<Rightarrow> response \<times> db" where
  "try_catch m h d = (case m d of Inl (err, d') \<Rightarrow> (h err, d') | Inr r \<Rightarrow> r)"

text \<open>The four columns of the users table are TEXT.\<close>

definition insert_user :: "env \<Rightarrow> sqlval \<Rightarrow> sqlval \<Rightarrow> sqlval \<Rightarrow> sqlval \<Rightarrow> int stmt" where
  "insert_user e un pw fn rl d =
     (if un = SNull \<or> pw = SNull then Inl (SqliteError CONSTRAINT_NOTNULL)
      else if list_ex (\<lambda>u. username u = text_affinity e un) (users d)
        then Inl (SqliteError CONSTRAINT_UNIQUE)
      else let i = next_rowid (users_seq d) (map u_id (users d)) in
        Inr (i, d\<lparr>users := users d @
                    [\<lparr>u_id = i, username = text_affinity e un, password = text_affinity e pw,
                      full_name = text_affinity e fn, role = text_affinity e rl\<rparr>],
                  users_seq := i\<rparr>))"

definition insert_patient :: "patient \<Rightarrow> int stmt" where
  "insert_patient row d =
     (if name row = SNull then Inl (SqliteError CONSTRAINT_NOTNULL)
      else if mrn row \<noteq> SNull \<and> list_ex (\<lambda>p. mrn p = mrn row) (patients d)
        then Inl (SqliteError CONSTRAINT_UNIQUE)
      else let i = next_rowid (patients_seq d) (map p_id (patients d)) in
        Inr (i, d\<lparr>patients := patients d @ [row\<lparr>p_id := i\<rparr>], patients_seq := i\<rparr>))"

text \<open>\<open>DELETE FROM visits WHERE patient_id = ?\<close>; a NULL \<open>patient_id\<close> equals nothing.\<close>

definition deleteVisits :: "int \<Rightarrow> unit stmt" where
  "deleteVisits i d = Inr ((), d\<lparr>visits := filter (\<lambda>v. patient_id v \<noteq> SInt i) (visits d)\<rparr>)"

text \<open>
  \<open>DELETE FROM patients WHERE id = ?\<close>. With foreign keys enforced, deleting a row that a
  visit still references fails.
\<close>

definition deletePatient :: "env \<Rightarrow> int \<Rightarrow> unit stmt" where
  "deletePatient e i d =
     (if foreign_keys e \<and> list_ex (\<lambda>p. p_id p = i) (patients d)
           \<and> list_ex (\<lambda>v. patient_id v = SInt i) (visits d)
        then Inl (SqliteError CONSTRAINT_FOREIGNKEY)
      else Inr ((), d\<lparr>patients := filter (\<lambda>p. p_id p \<noteq> i) (patients d)\<rparr>))"

text \<open>\<open>DELETE FROM visits WHERE id = ?\<close>; the result is \<open>info.changes\<close>.\<close>

definition delete_visit_row :: "int \<Rightarrow> nat stmt" where
  "delete_visit_row i d =
     Inr (length (filter (\<lambda>v. v_id v = i) (visits d)),
          d\<lparr>visits := filter (\<lambda>v. v_id v \<noteq> i) (visits d)\<rparr>)"

text \<open>The fifteen assignments of \<open>UPDATE patients SET ... WHERE id = ?\<close>.\<close>

definition text_column :: "env \<Rightarrow> json \<Rightarrow> string \<Rightarrow> sqlval" where
  "text_column e b k = text_affinity e (to_sql (b k))"

definition set_fields :: "env \<Rightarrow> json \<Rightarrow> patient \<Rightarrow> patient" where
  "set_fields e b p = p\<lparr>
     mrn := text_column e b ''mrn'', name := text_column e b ''name'',
     age := numeric_affinity e (to_sql (b ''age'')),
     gender := text_column e b ''gender'', contact := text_column e b ''contact'',
     conditions := text_column e b ''conditions'',
     patient_type := text_column e b ''patient_type'',
     region := text_column e b ''region'', zone := text_column e b ''zone'',
     woreda := text_column e b ''woreda'', kebele := text_column e b ''kebele'',
     treatment_type := text_column e b ''treatment_type'',
     diabetes_type := text_column e b ''diabetes_type'',
     cvd_risk := text_column e b ''cvd_risk'',
     cvd_treatment_type := text_column e b ''cvd_treatment_type''\<rparr>"

definition set_where :: "env \<Rightarrow> json \<Rightarrow> int \<Rightarrow> patient \<Rightarrow> patient" where
  "set_where e b i p = (if p_id p = i then set_fields e b p else p)"

definition update_patient_row :: "env \<Rightarrow> json \<Rightarrow> int option \<Rightarrow> unit stmt" where
  "update_patient_row e b ido d =
     (case ido of
        None \<Rightarrow> Inr ((), d)
      | Some i \<Rightarrow>
          if \<not> list_ex (\<lambda>p. p_id p = i) (patients d) then Inr ((), d)
          else if to_sql (b ''name'') = SNull then Inl (SqliteError CONSTRAINT_NOTNULL)
          else if to_sql (b ''mrn'') \<noteq> SNull
                  \<and> list_ex (\<lambda>p. p_id p \<noteq> i \<and> mrn p = text_column e b ''mrn'') (patients d)
            then Inl (SqliteError CONSTRAINT_UNIQUE)
          else Inr ((), d\<lparr>patients := map (set_where e b i) (patients d)\<rparr>))"

text \<open>
  \<open>UPDATE patients SET patient_type = 'Repeat' WHERE id = ?\<close>. The parameter is compared
  with the INTEGER column \<open>id\<close>, so the handler passes it with numeric affinity applied.
\<close>

definition set_repeat :: "sqlval \<Rightarrow> patient \<Rightarrow> patient" where
  "set_repeat pid p = (if SInt (p_id p) = pid then p\<lparr>patient_type := SText ''Repeat''\<rparr> else p)"

definition mark_repeat :: "sqlval \<Rightarrow> unit stmt" where
  "mark_repeat pid d = Inr ((), d\<lparr>patients := map (set_repeat pid) (patients d)\<rparr>)"

definition insert_visit :: "env \<Rightarrow> visit \<Rightarrow> int stmt" where
  "insert_visit e row d =
     (if foreign_keys e \<and> patient_id row \<noteq> SNull
           \<and> \<not> list_ex (\<lambda>p. SInt (p_id p) = patient_id row) (patients d)
        then Inl (SqliteError CONSTRAINT_FOREIGNKEY)
      else let i = next_rowid (visits_seq d) (map v_id (visits d)) in
        Inr (i, d\<lparr>visits := visits d @ [row\<lparr>v_id := i\<rparr>], visits_seq := i\<rparr>))"

text \<open>\<open>SELECT * FROM users WHERE username = ?\<close>, first row.\<close>

definition select_user :: "env \<Rightarrow> sqlval \<Rightarrow> user option stmt" where
  "select_user e un d =
     Inr (if un = SNull then None else find (\<lambda>u. username u = text_affinity e un) (users d), d)"

section \<open>Strings\<close>

definition ascii_lower :: "char \<Rightarrow> char" where
  "ascii_lower c =
     (case map_of (zip ''ABCDEFGHIJKLMNOPQRSTUVWXYZ'' ''abcdefghijklmnopqrstuvwxyz'') c of
        Some l \<Rightarrow> l
      | None \<Rightarrow> c)"

fun starts_with :: "string \<Rightarrow> string \<Rightarrow> bool" where
  "starts_with [] s = True"
| "starts_with (c # w) [] = False"
| "starts_with (c # w) (d # s) = (c = d \<and> starts_with w s)"

text \<open>\<open>s.includes(w)\<close>: \<open>w\<close> occurs in \<open>s\<close>.\<close>

fun js_includes :: "string \<Rightarrow> string \<Rightarrow> bool" where
  "js_includes [] w = (w = [])"
| "js_includes (d # s) w = (starts_with w (d # s) \<or> js_includes s w)"

definition padStart :: "string \<Rightarrow> nat \<Rightarrow> char \<Rightarrow> string" where
  "padStart s n c = replicate (n - length s) c @ s"

section \<open>Request handlers\<close>

definition internal_error :: "error \<Rightarrow> response" where
  "internal_error err = Response 500 (ErrorBody ''Internal server error'')"

text \<open>\<open>bcrypt.hashSync\<close> and \<open>bcrypt.compareSync\<close> throw on an argument that is not a string.\<close>

definition bcrypt_hash :: "env \<Rightarrow> js \<Rightarrow> string action" where
  "bcrypt_hash e pw = (case pw of JStr s \<Rightarrow> ret (hashSync e s) | _ \<Rightarrow> throw IllegalArguments)"

definition bcrypt_compare :: "env \<Rightarrow> js \<Rightarrow> sqlval \<Rightarrow> bool action" where
  "bcrypt_compare e pw stored =
     (case (pw, stored) of
        (JStr s, SText h) \<Rightarrow> ret (compareSync e s h)
      | _ \<Rightarrow> throw IllegalArguments)"

definition signup :: "env \<Rightarrow> json \<Rightarrow> db \<Rightarrow> response \<times> db" where
  "signup e b =
     (let username = b ''username''; password = b ''password'';
          full_name = b ''full_name''; role = b ''role'' in
      try_catch
        (if \<not> truthy username \<or> \<not> truthy password
           then ret (Response 400 (ErrorBody ''Username and password are required''))
         else
           thenDo (bcrypt_hash e password) (\<lambda>hashedPassword.
           let userRole = js_or role (JStr ''staff'') in
           thenDo (run e 0 [username, JStr hashedPassword, js_or full_name username, userRole]
                     (insert_user e (to_sql username) (SText hashedPassword)
                        (to_sql (js_or full_name username)) (to_sql userRole)))
             (\<lambda>lastInsertRowid.
                ret (Response 200 (UserBody lastInsertRowid (to_sql username)
                       (to_sql (js_or full_name username)) (to_sql userRole))))))
        (\<lambda>err. if err = SqliteError CONSTRAINT_UNIQUE
                then Response 400 (ErrorBody ''Username already exists'')
                else internal_error err))"

text \<open>
  \<open>username.toLowerCase()\<close> throws when the username is not a string. Only the ASCII
  letters are folded here; no other character lowers to a letter of \<open>admin\<close> on its own.
\<close>

definition login_role :: "js \<Rightarrow> string action" where
  "login_role uname =
     (case uname of
        JStr s \<Rightarrow> ret (if js_includes (map ascii_lower s) ''admin'' then ''admin'' else ''staff'')
      | _ \<Rightarrow> throw TypeError)"

definition login :: "env \<Rightarrow> json \<Rightarrow> db \<Rightarrow> response \<times> db" where
  "login e b =
     (let username = b ''username''; password = b ''password'' in
      try_catch
        (if \<not> truthy username \<or> \<not> truthy password
           then ret (Response 400 (ErrorBody ''Username and password are required''))
         else
           thenDo (run e 0 [username] (select_user e (to_sql username))) (\<lambda>found.
           case found of
             Some u \<Rightarrow>
               thenDo (bcrypt_compare e password (user.password u)) (\<lambda>same.
               if \<not> same then ret (Response 401 (ErrorBody ''Invalid password''))
               else ret (Response 200
                      (UserBody (u_id u) (user.username u) (user.full_name u) (user.role u))))
           | None \<Rightarrow>
               thenDo (bcrypt_hash e password) (\<lambda>hashedPassword.
               thenDo (login_role username) (\<lambda>role.
               thenDo (run e 1 [username, JStr hashedPassword, username, JStr role]
                         (insert_user e (to_sql username) (SText hashedPassword)
                            (to_sql username) (SText role)))
                 (\<lambda>lastInsertRowid.
                    ret (Response 200 (UserBody lastInsertRowid (to_sql username)
                           (to_sql username) (SText role))))))))
        internal_error)"

text \<open>The sixteen parameters of the patient INSERT and the row they make.\<close>

definition finalMrn :: "env \<Rightarrow> json \<Rightarrow> js" where
  "finalMrn e b = js_or (b ''mrn'') (JStr (random_mrn e))"

definition patient_params :: "env \<Rightarrow> json \<Rightarrow> js list" where
  "patient_params e b =
     [finalMrn e b, b ''name'', b ''age'', b ''gender'', b ''contact'', b ''conditions'',
      js_or (b ''patient_type'') (JStr ''New''), b ''region'', b ''zone'', b ''woreda'',
      b ''kebele'', b ''treatment_type'', b ''diabetes_type'', b ''cvd_risk'',
      b ''cvd_treatment_type'', js_or (b ''created_at'') (JStr (now_iso e))]"

definition new_patient :: "env \<Rightarrow> json \<Rightarrow> patient" where
  "new_patient e b =
     \<lparr>p_id = 0, mrn = text_affinity e (to_sql (finalMrn e b)), name = text_column e b ''name'',
      age = numeric_affinity e (to_sql (b ''age'')), gender = text_column e b ''gender'',
      contact = text_column e b ''contact'',
      patient_type = text_affinity e (to_sql (js_or (b ''patient_type'') (JStr ''New''))),
      conditions = text_column e b ''conditions'', region = text_column e b ''region'',
      zone = text_column e b ''zone'', woreda = text_column e b ''woreda'',
      kebele = text_column e b ''kebele'',
      treatment_type = text_column e b ''treatment_type'',
      diabetes_type = text_column e b ''diabetes_type'',
      cvd_risk = text_column e b ''cvd_risk'',
      cvd_treatment_type = text_column e b ''cvd_treatment_type'',
      created_at =
        numeric_affinity e (to_sql (js_or (b ''created_at'') (JStr (now_iso e))))\<rparr>"

definition create_patient :: "env \<Rightarrow> json \<Rightarrow> db \<Rightarrow> response \<times> db" where
  "create_patient e b =
     try_catch
       (thenDo (run e 0 (patient_params e b) (insert_patient (new_patient e b)))
          (\<lambda>lastInsertRowid.
             ret (Response 200 (PatientCreated lastInsertRowid (to_sql (finalMrn e b))))))
       internal_error"

text \<open>
  The two delete handlers take \<open>parseInt(req.params.id)\<close>, with \<open>None\<close> for NaN.
\<close>

definition delete_patient :: "env \<Rightarrow> int option \<Rightarrow> db \<Rightarrow> response \<times> db" where
  "delete_patient e patientId =
     try_catch
       (case patientId of
          None \<Rightarrow> ret (Response 400 (ErrorBody ''Invalid patient ID''))
        | Some i \<Rightarrow>
            thenDo (transaction
                      (thenDo (run e 0 [JNum i] (deleteVisits i))
                         (\<lambda>_. run e 1 [JNum i] (deletePatient e i))))
              (\<lambda>_. ret (Response 200
                      (SuccessMessage ''Patient and records deleted successfully''))))
       (\<lambda>err. Response 500 (ErrorDetail ''Internal server error: '' err))"

definition delete_visit :: "env \<Rightarrow> int option \<Rightarrow> db \<Rightarrow> response \<times> db" where
  "delete_visit e visitId =
     try_catch
       (case visitId of
          None \<Rightarrow> ret (Response 400 (ErrorBody ''Invalid visit ID''))
        | Some i \<Rightarrow>
            thenDo (run e 0 [JNum i] (delete_visit_row i)) (\<lambda>changes.
            if changes = 0 then ret (Response 404 (ErrorBody ''Visit not found''))
            else ret (Response 200 (SuccessMessage ''Visit deleted successfully''))))
       internal_error"

text \<open>
  The update handler binds \<open>req.params.id\<close> as it is; the argument is the integer that
  text denotes for the INTEGER column \<open>id\<close>, with \<open>None\<close> for a text that denotes none
  (it matches no row).
\<close>

definition update_params :: "json \<Rightarrow> js list" where
  "update_params b =
     [b ''mrn'', b ''name'', b ''age'', b ''gender'', b ''contact'', b ''conditions'',
      b ''patient_type'', b ''region'', b ''zone'', b ''woreda'', b ''kebele'',
      b ''treatment_type'', b ''diabetes_type'', b ''cvd_risk'', b ''cvd_treatment_type'']"

definition update_patient :: "env \<Rightarrow> int option \<Rightarrow> json \<Rightarrow> db \<Rightarrow> response \<times> db" where
  "update_patient e ido b =
     try_catch
       (thenDo (run e 0 (update_params b) (update_patient_row e b ido))
          (\<lambda>_. ret (Response 200 Success)))
       internal_error"

text \<open>The helper \<open>n\<close> of the visit handler: the empty string and undefined become null.\<close>

definition n :: "js \<Rightarrow> js" where
  "n val = (if val = JStr [] \<or> val = JUndefined then JNull else val)"

definition visit_params :: "json \<Rightarrow> js list" where
  "visit_params b =
     [b ''patient_id'', n (b ''systolic_bp''), n (b ''diastolic_bp''), n (b ''heart_rate''),
      n (b ''temperature''), n (b ''respiratory_rate''), n (b ''spo2''),
      n (b ''blood_sugar_level''), n (b ''hba1c''), n (b ''creatinine''),
      n (b ''cholesterol''), n (b ''triglycerides''), b ''urinalysis'',
      n (b ''weight''), b ''notes'', b ''complications'']"

text \<open>
  The new visit row, each value with the affinity of its column; \<open>visit_date\<close> is not
  among the columns of the INSERT and takes its default, \<open>DATE('now')\<close>.
\<close>

definition numeric_column :: "env \<Rightarrow> js \<Rightarrow> sqlval" where
  "numeric_column e x = numeric_affinity e (to_sql x)"

definition new_visit :: "env \<Rightarrow> json \<Rightarrow> visit" where
  "new_visit e b =
     \<lparr>v_id = 0, patient_id = numeric_column e (b ''patient_id''),
      visit_date = numeric_affinity e (SText (date_now e)),
      systolic_bp = numeric_column e (n (b ''systolic_bp'')),
      diastolic_bp = numeric_column e (n (b ''diastolic_bp'')),
      heart_rate = numeric_column e (n (b ''heart_rate'')),
      temperature = numeric_column e (n (b ''temperature'')),
      respiratory_rate = numeric_column e (n (b ''respiratory_rate'')),
      spo2 = numeric_column e (n (b ''spo2'')),
      blood_sugar_level = numeric_column e (n (b ''blood_sugar_level'')),
      hba1c = numeric_column e (n (b ''hba1c'')),
      creatinine = numeric_column e (n (b ''creatinine'')),
      cholesterol = numeric_column e (n (b ''cholesterol'')),
      triglycerides = numeric_column e (n (b ''triglycerides'')),
      urinalysis = text_column e b ''urinalysis'',
      weight = numeric_column e (n (b ''weight'')),
      v_notes = text_column e b ''notes'',
      complications = text_column e b ''complications''\<rparr>"

definition add_visit :: "env \<Rightarrow> json \<Rightarrow> db \<Rightarrow> response \<times> db" where
  "add_visit e b =
     try_catch
       (thenDo (run e 0 [b ''patient_id'']
                  (mark_repeat (numeric_column e (b ''patient_id'')))) (\<lambda>_.
        thenDo (run e 1 (visit_params b) (insert_visit e (new_visit e b)))
          (\<lambda>lastInsertRowid. ret (Response 200 (VisitCreated lastInsertRowid)))))
       internal_error"

section \<open>The report summary\<close>

text \<open>
  SQL conditions have three values; \<open>None\<close> is NULL. A WHERE clause and a CASE WHEN keep
  a row only when the condition is true.
\<close>

definition sql_eq :: "sqlval \<Rightarrow> sqlval \<Rightarrow> bool option" where
  "sql_eq a b = (if a = SNull \<or> b = SNull then None else Some (a = b))"

definition sql_and :: "bool option \<Rightarrow> bool option \<Rightarrow> bool option" where
  "sql_and a b =
     (if a = Some False \<or> b = Some False then Some False
      else if a = None \<or> b = None then None
      else Some True)"

definition sql_not :: "bool option \<Rightarrow> bool option" where
  "sql_not a = map_option Not a"

definition is_true :: "bool option \<Rightarrow> bool" where
  "is_true a = (a = Some True)"

text \<open>
  SQLite's LIKE: \<open>%\<close> matches any run of characters, \<open>_\<close> one character, and any other
  character matches itself, the ASCII letters compared without regard to case. Strings are
  byte strings; the two patterns of the summary hold no \<open>_\<close>.
\<close>

fun like_match :: "string \<Rightarrow> string \<Rightarrow> bool" where
  "like_match [] [] = True"
| "like_match [] (d # s) = False"
| "like_match (c # p) [] = (c = CHR ''%'' \<and> like_match p [])"
| "like_match (c # p) (d # s) =
     (if c = CHR ''%'' then like_match p (d # s) \<or> like_match (c # p) s
      else if c = CHR ''_'' then like_match p s
      else ascii_lower c = ascii_lower d \<and> like_match p s)"

text \<open>
  \<open>x LIKE pattern\<close>. A number is matched through its decimal text, which holds no
  letter, so it matches neither of the two patterns of the summary.
\<close>

definition sql_like :: "sqlval \<Rightarrow> string \<Rightarrow> bool option" where
  "sql_like x pattern =
     (case x of SNull \<Rightarrow> None | SText s \<Rightarrow> Some (like_match pattern s) | SInt k \<Rightarrow> Some False)"

text \<open>\<open>SUM\<close> over no rows is NULL; \<open>x || 0\<close> turns it into 0.\<close>

definition sql_sum :: "int list \<Rightarrow> int option" where
  "sql_sum xs = (if xs = [] then None else Some (sum_list xs))"

definition or0 :: "int option \<Rightarrow> int" where
  "or0 x = (case x of None \<Rightarrow> 0 | Some k \<Rightarrow> k)"

definition case_when :: "bool option \<Rightarrow> int" where
  "case_when c = (if is_true c then 1 else 0)"

text \<open>
  The query string: \<open>month\<close> and \<open>year\<close> are strings when present. \<open>params\<close> is empty,
  or holds the padded month and the year.
\<close>

record query =
  month :: "string option"
  year :: "string option"

definition present :: "string option \<Rightarrow> bool" where
  "present x = (case x of None \<Rightarrow> False | Some s \<Rightarrow> s \<noteq> [])"

definition params :: "query \<Rightarrow> (string \<times> string) option" where
  "params q =
     (if present (month q) \<and> present (year q)
      then Some (padStart (the (month q)) 2 CHR ''0'', the (year q))
      else None)"

definition in_month_year :: "env \<Rightarrow> (string \<times> string) \<Rightarrow> sqlval \<Rightarrow> bool option" where
  "in_month_year e my t =
     sql_and (sql_eq (strftime e ''%m'' t) (SText (fst my)))
             (sql_eq (strftime e ''%Y'' t) (SText (snd my)))"

definition patientWhere :: "env \<Rightarrow> (string \<times> string) option \<Rightarrow> patient \<Rightarrow> bool option" where
  "patientWhere e ps p =
     (case ps of None \<Rightarrow> Some True | Some my \<Rightarrow> in_month_year e my (created_at p))"

definition visitWhere :: "env \<Rightarrow> (string \<times> string) option \<Rightarrow> visit \<Rightarrow> bool option" where
  "visitWhere e ps v =
     (case ps of None \<Rightarrow> Some True | Some my \<Rightarrow> in_month_year e my (visit_date v))"

definition count_patients :: "(patient \<Rightarrow> bool option) \<Rightarrow> nat stmt" where
  "count_patients w d = Inr (length (filter (\<lambda>p. is_true (w p)) (patients d)), d)"

definition conditionCounts_query ::
  "(patient \<Rightarrow> bool option) \<Rightarrow> (int option \<times> int option \<times> int option) stmt" where
  "conditionCounts_query w d =
     (let rows = filter (\<lambda>p. is_true (w p)) (patients d) in
      Inr ((sql_sum (map (\<lambda>p. case_when
                (sql_and (sql_like (conditions p) ''%Hypertension%'')
                         (sql_not (sql_like (conditions p) ''%Diabetes%'')))) rows),
            sql_sum (map (\<lambda>p. case_when
                (sql_and (sql_like (conditions p) ''%Diabetes%'')
                         (sql_not (sql_like (conditions p) ''%Hypertension%'')))) rows),
            sql_sum (map (\<lambda>p. case_when
                (sql_and (sql_like (conditions p) ''%Hypertension%'')
                         (sql_like (conditions p) ''%Diabetes%''))) rows)), d))"

definition gender_query ::
  "(patient \<Rightarrow> bool option) \<Rightarrow> (int option \<times> int option \<times> int option) stmt" where
  "gender_query w d =
     (let rows = filter (\<lambda>p. is_true (w p)) (patients d) in
      Inr ((sql_sum (map (\<lambda>p. case_when (sql_eq (gender p) (SText ''Male''))) rows),
            sql_sum (map (\<lambda>p. case_when (sql_eq (gender p) (SText ''Female''))) rows),
            sql_sum (map (\<lambda>p. case_when (sql_eq (gender p) (SText ''Other''))) rows)), d))"

text \<open>
  The order of SQLite values: NULL, then numbers, then text byte by byte. \<open>ORDER BY
  visit_date DESC\<close> leaves the order of rows with equal dates open; the model keeps them
  in the order of the join.
\<close>

fun text_le :: "string \<Rightarrow> string \<Rightarrow> bool" where
  "text_le [] t = True"
| "text_le (c # s) [] = False"
| "text_le (c # s) (d # t) =
     ((of_char c :: nat) < of_char d \<or> (c = d \<and> text_le s t))"

fun sql_le :: "sqlval \<Rightarrow> sqlval \<Rightarrow> bool" where
  "sql_le SNull y = True"
| "sql_le (SInt a) SNull = False"
| "sql_le (SInt a) (SInt b) = (a \<le> b)"
| "sql_le (SInt a) (SText t) = True"
| "sql_le (SText s) (SText t) = text_le s t"
| "sql_le (SText s) y = False"

fun insert_desc :: "(visit \<times> sqlval) \<Rightarrow> (visit \<times> sqlval) list \<Rightarrow> (visit \<times> sqlval) list" where
  "insert_desc r [] = [r]"
| "insert_desc r (x # xs) =
     (if sql_le (visit_date (fst x)) (visit_date (fst r)) then r # x # xs
      else x # insert_desc r xs)"

definition order_by_visit_date_desc :: "(visit \<times> sqlval) list \<Rightarrow> (visit \<times> sqlval) list" where
  "order_by_visit_date_desc rows = foldr insert_desc rows []"

text \<open>\<open>FROM visits v JOIN patients p ON v.patient_id = p.id\<close>, selecting \<open>v.*, p.name\<close>.\<close>

definition visits_join_patients :: "db \<Rightarrow> (visit \<times> sqlval) list" where
  "visits_join_patients d =
     concat (map (\<lambda>v. map (\<lambda>p. (v, name p))
                          (filter (\<lambda>p. patient_id v = SInt (p_id p)) (patients d)))
                 (visits d))"

definition recentVisits_query :: "(visit \<Rightarrow> bool option) \<Rightarrow> (visit \<times> sqlval) list stmt" where
  "recentVisits_query w d =
     Inr (take 10 (order_by_visit_date_desc
            (filter (\<lambda>r. is_true (w (fst r))) (visits_join_patients d))), d)"

definition gender_json :: "int option \<times> int option \<times> int option \<Rightarrow> gender_counts" where
  "gender_json g = (case g of (m, f, ot) \<Rightarrow> \<lparr>male = or0 m, female = or0 f, other = or0 ot\<rparr>)"

definition get_summary :: "env \<Rightarrow> query \<Rightarrow> db \<Rightarrow> response \<times> db" where
  "get_summary e q =
     try_catch
       (let ps = params q;
            bound = (case ps of None \<Rightarrow> [] | Some (m, y) \<Rightarrow> [JStr m, JStr y]);
            pw = patientWhere e ps;
            hyp = (\<lambda>p. sql_like (conditions p) ''%Hypertension%'');
            dia = (\<lambda>p. sql_like (conditions p) ''%Diabetes%'') in
        thenDo (run e 0 bound (count_patients pw)) (\<lambda>total.
        thenDo (run e 1 bound (count_patients
                  (\<lambda>p. sql_and (pw p) (sql_eq (patient_type p) (SText ''New''))))) (\<lambda>new.
        thenDo (run e 2 bound (count_patients
                  (\<lambda>p. sql_and (pw p) (sql_eq (patient_type p) (SText ''Repeat''))))) (\<lambda>repeat.
        thenDo (run e 3 bound (conditionCounts_query pw)) (\<lambda>cc.
        thenDo (run e 4 bound (gender_query pw)) (\<lambda>gd.
        thenDo (run e 5 bound (gender_query (\<lambda>p. sql_and (hyp p) (pw p)))) (\<lambda>gh.
        thenDo (run e 6 bound (gender_query (\<lambda>p. sql_and (dia p) (pw p)))) (\<lambda>gdia.
        thenDo (run e 7 bound (recentVisits_query (visitWhere e ps))) (\<lambda>recent.
        ret (Response 200 (Summary
          \<lparr>totalPatients = total, newPatients = new, repeatPatients = repeat,
           conditionCounts = (case cc of (h, dm, bo) \<Rightarrow>
              \<lparr>hypertension_only = or0 h, diabetes_only = or0 dm, both = or0 bo\<rparr>),
           genderDistribution = gender_json gd,
           genderByCondition_hypertension = gender_json gh,
           genderByCondition_diabetes = gender_json gdia,
           recentVisits = recent\<rparr>)))))))))))
       internal_error"

section \<open>Requests\<close>

datatype request =
  Signup json
| Login json
| CreatePatient json
| DeletePatient "int option"
| DeleteVisit "int option"
| UpdatePatient "int option" json
| AddVisit json
| GetSummary query

fun handle :: "env \<Rightarrow> request \<Rightarrow> db \<Rightarrow> response \<times> db" where
  "handle e (Signup b) d = signup e b d"
| "handle e (Login b) d = login e b d"
| "handle e (CreatePatient b) d = create_patient e b d"
| "handle e (DeletePatient i) d = delete_patient e i d"
| "handle e (DeleteVisit i) d = delete_visit e i d"
| "handle e (UpdatePatient i b) d = update_patient e i b d"
| "handle e (AddVisit b) d = add_visit e b d"
| "handle e (GetSummary q) d = get_summary e q d"

section \<open>Sequences of requests\<close>

text \<open>Requests are served one after the other, each in its own environment.\<close>

fun serve :: "(env \<times> request) list \<Rightarrow> db \<Rightarrow> db" where
  "serve [] d = d"
| "serve (x # rs) d = serve rs (snd (handle (fst x) (snd x) d))"

text \<open>
  A request is a PUT for patient \<open>i\<close> when it is an update with the identifier \<open>i\<close>, and
  a visit for patient \<open>i\<close> when it is a visit whose \<open>patient_id\<close>, compared with the \<open>id\<close>
  column, is \<open>i\<close>.
\<close>

fun puts :: "int \<Rightarrow> request \<Rightarrow> bool" where
  "puts i (UpdatePatient ido b) = (ido = Some i)"
| "puts i rq = False"

fun records :: "env \<Rightarrow> int \<Rightarrow> request \<Rightarrow> bool" where
  "records e i (AddVisit b) = (numeric_column e (b ''patient_id'') = SInt i)"
| "records e i rq = False"

text \<open>
  An action preserves a relation between stores when the store it leaves, on return or
  on a throw, is related to the store it started from.
\<close>

definition preserves :: "(db \<Rightarrow> db \<Rightarrow> bool) \<Rightarrow> 'a action \<Rightarrow> bool" where
  "preserves R m = (\<forall>d. case m d of Inl (err, d') \<Rightarrow> R d d' | Inr (r, d') \<Rightarrow> R d d')"

text \<open>
  The identifiers of a store are handed out when no patient row has an identifier above
  the AUTOINCREMENT sequence of the table.
\<close>

definition handed_out :: "db \<Rightarrow> bool" where
  "handed_out d = list_all (\<lambda>p. p_id p \<le> patients_seq d) (patients d)"

text \<open>
  Patient \<open>i\<close> has the type \<open>t\<close> in a store when the identifier \<open>i\<close> has been handed out
  and every patient row with that identifier has the patient type \<open>t\<close>.
\<close>

definition has_type :: "int \<Rightarrow> sqlval \<Rightarrow> db \<Rightarrow> bool" where
  "has_type i t d =
     (i \<le> patients_seq d \<and> list_all (\<lambda>p. p_id p = i \<longrightarrow> patient_type p = t) (patients d))"

section \<open>The age field of the registration form\<close>

text \<open>
  The form keeps the age as a string. On every change the non-digits are dropped from
  what was typed, and the result replaces the age only if it is empty or reads as a
  number from 1 to 99. \<open>parseInt\<close> is only applied to strings of
  digits here, where it is the decimal value.
\<close>

definition is_digit :: "char \<Rightarrow> bool" where
  "is_digit c = (c \<in> set ''0123456789'')"

definition parseInt :: "string \<Rightarrow> nat" where
  "parseInt s = foldl (\<lambda>a c. 10 * a + (of_char c - 48)) 0 s"



section \<open>The window and the condition classes, in the words of the specification\<close>

text \<open>
  A window is supplied when the request carries a month and a year. A timestamp matches
  the window when its month, as two digits, and its year are those of the window.
\<close>

definition window_supplied :: "query \<Rightarrow> bool" where
  "window_supplied q = (present (month q) \<and> present (year q))"

definition matches_window :: "env \<Rightarrow> query \<Rightarrow> sqlval \<Rightarrow> bool" where
  "matches_window e q t =
     (strftime e ''%m'' t = SText (padStart (the (month q)) 2 CHR ''0'') \<and>
      strftime e ''%Y'' t = SText (the (year q)))"

definition patients_in_window :: "env \<Rightarrow> query \<Rightarrow> db \<Rightarrow> patient list" where
  "patients_in_window e q d =
     (if window_supplied q then filter (\<lambda>p. matches_window e q (created_at p)) (patients d)
      else patients d)"

definition visits_in_window :: "env \<Rightarrow> query \<Rightarrow> db \<Rightarrow> (visit \<times> sqlval) list" where
  "visits_in_window e q d =
     (if window_supplied q
      then filter (\<lambda>r. matches_window e q (visit_date (fst r))) (visits_join_patients d)
      else visits_join_patients d)"

text \<open>
  A conditions field mentions a word when it is a text in which the word occurs, the
  ASCII letters compared without regard to case.
\<close>

definition mentions :: "string \<Rightarrow> sqlval \<Rightarrow> bool" where
  "mentions w c =
     (case c of SText s \<Rightarrow> js_includes (map ascii_lower s) (map ascii_lower w) | _ \<Rightarrow> False)"

text \<open>
  The report over given patients and visit rows: the counts by patient type, the three
  condition classes, the gender counts over all the patients and over those that mention
  each condition, and the ten visit rows with the latest dates.
\<close>

definition count_where :: "('a \<Rightarrow> bool) \<Rightarrow> 'a list \<Rightarrow> int" where
  "count_where P xs = int (length (filter P xs))"

definition gender_over :: "patient list \<Rightarrow> gender_counts" where
  "gender_over ps =
     \<lparr>male = count_where (\<lambda>p. gender p = SText ''Male'') ps,
      female = count_where (\<lambda>p. gender p = SText ''Female'') ps,
      other = count_where (\<lambda>p. gender p = SText ''Other'') ps\<rparr>"

definition report_over :: "patient list \<Rightarrow> (visit \<times> sqlval) list \<Rightarrow> report" where
  "report_over ps vs =
     \<lparr>totalPatients = length ps,
      newPatients = length (filter (\<lambda>p. patient_type p = SText ''New'') ps),
      repeatPatients = length (filter (\<lambda>p. patient_type p = SText ''Repeat'') ps),
      conditionCounts =
        \<lparr>hypertension_only = count_where (\<lambda>p. mentions ''Hypertension'' (conditions p)
                                 \<and> \<not> mentions ''Diabetes'' (conditions p)) ps,
         diabetes_only = count_where (\<lambda>p. mentions ''Diabetes'' (conditions p)
                                 \<and> \<not> mentions ''Hypertension'' (conditions p)) ps,
         both = count_where (\<lambda>p. mentions ''Hypertension'' (conditions p)
                                 \<and> mentions ''Diabetes'' (conditions p)) ps\<rparr>,
      genderDistribution = gender_over ps,
      genderByCondition_hypertension =
        gender_over (filter (\<lambda>p. mentions ''Hypertension'' (conditions p)) ps),
      genderByCondition_diabetes =
        gender_over (filter (\<lambda>p. mentions ''Diabetes'' (conditions p)) ps),
      recentVisits = take 10 (order_by_visit_date_desc vs)\<rparr>"


section \<open>Example data\<close>

text \<open>Reading the report out of a response.\<close>

definition summary_of :: "response \<Rightarrow> report option" where
  "summary_of r = (case payload r of Summary s \<Rightarrow> Some s | _ \<Rightarrow> None)"

definition no_fields :: json where
  "no_fields = (\<lambda>k. JUndefined)"

definition empty_db :: db where
  "empty_db = \<lparr>users = [], patients = [], visits = [],
               users_seq = 0, patients_seq = 0, visits_seq = 0\<rparr>"

text \<open>In the examples \<open>strftime\<close> reads the month and the year off an ISO 8601 text.\<close>

definition iso_strftime :: "string \<Rightarrow> sqlval \<Rightarrow> sqlval" where
  "iso_strftime f t =
     (case t of
        SText s \<Rightarrow>
          if f = ''%m'' then SText (take 2 (drop 5 s))
          else if f = ''%Y'' then SText (take 4 s)
          else SNull
      | _ \<Rightarrow> SNull)"

text \<open>
  The numeric texts of the examples are the decimal integers with an optional minus sign,
  and a number is written as text with one decimal place, as a whole double is.
\<close>

definition integer_literal :: "string \<Rightarrow> int option" where
  "integer_literal s =
     (case s of
        [] \<Rightarrow> None
      | c # cs \<Rightarrow>
          if c = CHR ''-'' \<and> cs \<noteq> [] \<and> list_all is_digit cs then Some (- int (parseInt cs))
          else if list_all is_digit s then Some (int (parseInt s))
          else None)"

fun digits :: "nat \<Rightarrow> string" where
  "digits k =
     (if k < 10 then [''0123456789'' ! k]
      else digits (k div 10) @ [''0123456789'' ! (k mod 10)])"

definition whole_double :: "int \<Rightarrow> string" where
  "whole_double k = (if k < 0 then ''-'' else []) @ digits (nat \<bar>k\<bar>) @ ''.0''"

definition clinic_env :: env where
  "clinic_env =
     \<lparr>foreign_keys = True, now_iso = ''2024-05-01T10:00:00.000Z'', date_now = ''2024-05-01'',
      random_mrn = ''123456'', hashSync = (\<lambda>s. CHR ''#'' # s),
      compareSync = (\<lambda>s h. h = CHR ''#'' # s), strftime = iso_strftime,
      numeric_text = integer_literal, real_text = whole_double,
      fails = (\<lambda>k. False)\<rparr>"

text \<open>A store with two patients: Abebe, with one visit, and Kebede, with none.\<close>

definition abebe :: patient where
  "abebe =
     \<lparr>p_id = 1, mrn = SText ''100'', name = SText ''Abebe'', age = SInt 45,
      gender = SText ''Male'', contact = SNull, patient_type = SText ''Repeat'',
      conditions = SText ''Hypertension, Diabetes'', region = SNull, zone = SNull,
      woreda = SNull, kebele = SNull, treatment_type = SNull, diabetes_type = SNull,
      cvd_risk = SNull, cvd_treatment_type = SNull,
      created_at = SText ''2024-05-01T10:00:00.000Z''\<rparr>"

definition kebede :: patient where
  "kebede =
     \<lparr>p_id = 2, mrn = SText ''200'', name = SText ''Kebede'', age = SInt 60,
      gender = SText ''Male'', contact = SNull, patient_type = SText ''New'',
      conditions = SText ''Hypertension'', region = SNull, zone = SNull,
      woreda = SNull, kebele = SNull, treatment_type = SNull, diabetes_type = SNull,
      cvd_risk = SNull, cvd_treatment_type = SNull,
      created_at = SText ''2024-06-11T08:30:00.000Z''\<rparr>"

definition first_visit :: visit where
  "first_visit =
     \<lparr>v_id = 1, patient_id = SInt 1, visit_date = SText ''2024-05-02'',
      systolic_bp = SInt 120, diastolic_bp = SInt 80, heart_rate = SNull,
      temperature = SNull, respiratory_rate = SNull, spo2 = SNull,
      blood_sugar_level = SNull, hba1c = SNull, creatinine = SNull, cholesterol = SNull,
      triglycerides = SNull, urinalysis = SNull, weight = SNull, v_notes = SNull,
      complications = SNull\<rparr>"

definition clinic_db :: db where
  "clinic_db = \<lparr>users = [], patients = [abebe, kebede], visits = [first_visit],
                users_seq = 0, patients_seq = 2, visits_seq = 1\<rparr>"

text \<open>Queries: no window, and May 2024 with the month as the number 5.\<close>

definition all_time :: query where
  "all_time = \<lparr>month = None, year = None\<rparr>"

definition may_2024 :: query where
  "may_2024 = \<lparr>month = Some ''5'', year = Some ''2024''\<rparr>"

section \<open>Statements and actions\<close>

lemma run_throws_unchanged: "run e k ps st d = Inl (err, d') \<Longrightarrow> d' = d"
  by (auto simp: run_def split: if_splits sum.splits)

text \<open>Affinity leaves NULL alone, numeric affinity a number and text affinity a text.\<close>

lemma numeric_affinity_simps [simp]:
  "numeric_affinity e SNull = SNull" "numeric_affinity e (SInt k) = SInt k"
  by (simp_all add: numeric_affinity_def)

lemma text_affinity_simps [simp]:
  "text_affinity e SNull = SNull" "text_affinity e (SText s) = SText s"
  by (simp_all add: text_affinity_def)

lemma numeric_affinity_null [simp]: "numeric_affinity e x = SNull \<longleftrightarrow> x = SNull"
  by (simp add: numeric_affinity_def split: sqlval.splits option.splits)

lemma text_affinity_null [simp]: "text_affinity e x = SNull \<longleftrightarrow> x = SNull"
  by (simp add: text_affinity_def split: sqlval.splits)

lemma text_affinity_text: "\<exists>s. text_affinity e x = SText s \<or> text_affinity e x = SNull"
  by (cases x) (simp_all add: text_affinity_def)

lemma numeric_column_simps [simp]:
  "numeric_column e (JNum i) = SInt i" "numeric_column e JNull = SNull"
  "numeric_column e JUndefined = SNull"
  by (simp_all add: numeric_column_def)

lemma numeric_column_null [simp]: "numeric_column e x = SNull \<longleftrightarrow> to_sql x = SNull"
  by (simp add: numeric_column_def)

lemma text_column_null [simp]: "text_column e b k = SNull \<longleftrightarrow> to_sql (b k) = SNull"
  by (simp add: text_column_def)

lemmas handler_defs =
  try_catch_def thenDo_def ret_def throw_def run_def internal_error_def js_or_def

lemma filter_neq_id: "\<forall>x\<in>set xs. f x \<noteq> i \<Longrightarrow> filter (\<lambda>x. f x \<noteq> i) xs = xs"
  by (induction xs) auto

lemma filter_eq_empty: "\<forall>x\<in>set xs. f x \<noteq> i \<Longrightarrow> filter (\<lambda>x. f x = i) xs = []"
  by (induction xs) auto

lemma set_repeat_id: "p_id (set_repeat pid p) = p_id p"
  by (cases "SInt (p_id p) = pid") (simp_all add: set_repeat_def)

lemma set_repeat_hit:
  "SInt (p_id p) = pid \<Longrightarrow> patient_type (set_repeat pid p) = SText ''Repeat''"
  by (simp add: set_repeat_def)

lemma set_repeat_miss: "SInt (p_id p) \<noteq> pid \<Longrightarrow> set_repeat pid p = p"
  by (simp add: set_repeat_def)

lemma in_map_set_repeat:
  assumes "q \<in> set (map (set_repeat (SInt i)) ps)" and "p_id q = i"
  shows "patient_type q = SText ''Repeat''"
proof -
  from assms(1) obtain p where p: "q = set_repeat (SInt i) p"
    by (auto simp only: set_map image_iff)
  with assms(2) have "p_id p = i" by (simp only: set_repeat_id)
  then show ?thesis unfolding p by (simp only: set_repeat_hit)
qed

lemmas example_defs =
  clinic_env_def clinic_db_def empty_db_def abebe_def kebede_def first_visit_def no_fields_def

lemmas eval_defs =
  handler_defs add_visit_def update_patient_def create_patient_def delete_visit_def
  delete_patient_def mark_repeat_def set_repeat_def insert_visit_def insert_patient_def
  update_patient_row_def set_where_def set_fields_def delete_visit_row_def deleteVisits_def
  deletePatient_def transaction_def visit_params_def patient_params_def update_params_def
  new_visit_def new_patient_def finalMrn_def n_def next_rowid_def Let_def
  text_column_def numeric_column_def numeric_affinity_def text_affinity_def
  integer_literal_def is_digit_def parseInt_def

lemma run_returns: "run e k ps st d = Inr r \<Longrightarrow> st d = Inr r"
  by (auto simp: run_def split: if_splits sum.splits)

lemma set_repeat_null: "map (set_repeat SNull) ps = ps"
  by (induction ps) (simp_all add: set_repeat_def)

lemma list_all_map_keep:
  "list_all P xs \<Longrightarrow> (\<And>x. P x \<Longrightarrow> P (f x)) \<Longrightarrow> list_all P (map f xs)"
  by (induction xs) auto

lemma list_all_filter_keep: "list_all P xs \<Longrightarrow> list_all P (filter Q xs)"
  by (induction xs) auto

lemma fold_max_ge: "(s::int) \<le> fold max xs s"
  by (induction xs arbitrary: s) (auto intro: order_trans [OF max.cobounded2])

lemma next_rowid_gt: "s < next_rowid s xs"
  using fold_max_ge [of s xs] by (simp add: next_rowid_def)

text \<open>Rules for showing that an action preserves a relation between stores.\<close>

lemma preserves_ret: "(\<And>d. R d d) \<Longrightarrow> preserves R (ret x)"
  by (simp add: preserves_def ret_def)

lemma preserves_throw: "(\<And>d. R d d) \<Longrightarrow> preserves R (throw x)"
  by (simp add: preserves_def throw_def)

lemma preserves_thenDo:
  assumes tr: "\<And>a b c. R a b \<Longrightarrow> R b c \<Longrightarrow> R a c"
    and m: "preserves R m" and f: "\<And>x. preserves R (f x)"
  shows "preserves R (thenDo m f)"
  unfolding preserves_def
proof
  fix d
  show "case thenDo m f d of Inl (err, d') \<Rightarrow> R d d' | Inr (r, d') \<Rightarrow> R d d'"
  proof (cases "m d")
    case (Inl x)
    with m show ?thesis by (auto simp: preserves_def thenDo_def split: prod.splits dest!: spec[where x=d])
  next
    case (Inr y)
    obtain r d1 where y: "y = (r, d1)" by (cases y)
    from m Inr y have 1: "R d d1" by (auto simp: preserves_def dest!: spec[where x=d])
    from f[of r] have 2: "case f r d1 of Inl (err, d') \<Rightarrow> R d1 d' | Inr (r, d') \<Rightarrow> R d1 d'"
      by (simp add: preserves_def)
    show ?thesis
      using Inr y 1 2 by (auto simp: thenDo_def split: sum.splits prod.splits intro: tr)
  qed
qed

lemma preserves_run:
  assumes "\<And>d. R d d" and "\<And>d r d'. st d = Inr (r, d') \<Longrightarrow> R d d'"
  shows "preserves R (run e k ps st)"
  using assms by (auto simp: preserves_def run_def split: sum.splits)

lemma preserves_transaction:
  assumes "\<And>d. R d d" and "preserves R m"
  shows "preserves R (transaction m)"
  unfolding preserves_def
proof
  fix d
  from assms(2) have "case m d of Inl (err, d') \<Rightarrow> R d d' | Inr (r, d') \<Rightarrow> R d d'"
    by (simp add: preserves_def)
  then show "case transaction m d of Inl (err, d') \<Rightarrow> R d d' | Inr (r, d') \<Rightarrow> R d d'"
    using assms(1) by (auto simp: transaction_def split: sum.splits prod.splits)
qed

lemma preserves_try_catch:
  assumes "preserves R m"
  shows "R d (snd (try_catch m h d))"
proof -
  from assms have "case m d of Inl (err, d') \<Rightarrow> R d d' | Inr (r, d') \<Rightarrow> R d d'"
    by (simp add: preserves_def)
  then show ?thesis by (auto simp: try_catch_def split: sum.splits prod.splits)
qed

section \<open>Deleting\<close>

text \<open>
  C6. Deleting a visit whose id matches no row: when the DELETE statement itself runs,
  the answer is 404 with the body \<open>{error: "Visit not found"}\<close>, not a 500, and the store
  is left as it was.
\<close>

theorem delete_visit_not_found:
  assumes "\<not> fails e 0" and "\<forall>v\<in>set (visits d). v_id v \<noteq> i"
  shows "delete_visit e (Some i) d = (Response 404 (ErrorBody ''Visit not found''), d)"
  using assms
  by (simp add: delete_visit_def try_catch_def thenDo_def ret_def run_def delete_visit_row_def
      filter_neq_id filter_eq_empty)

theorem delete_visit_not_found_witness:
  "delete_visit clinic_env (Some 2) clinic_db =
     (Response 404 (ErrorBody ''Visit not found''), clinic_db)"
  by (rule delete_visit_not_found) (simp_all add: clinic_env_def clinic_db_def first_visit_def)

text \<open>
  C4. Deleting patient \<open>i\<close>: either both statements of the transaction run, and the store
  loses exactly the visits whose \<open>patient_id\<close> is \<open>i\<close> and the patient rows whose id is
  \<open>i\<close>, every other row of every table staying as it was; or one of them fails, the answer
  is a 500 and the store is the one before the request. The foreign key never stands in
  the way, because the visits go first.
\<close>

theorem delete_patient_cascade:
  "delete_patient e (Some i) d =
     (if fails e 0 \<or> fails e 1
      then (Response 500 (ErrorDetail ''Internal server error: '' (SqliteError IOERR)), d)
      else (Response 200 (SuccessMessage ''Patient and records deleted successfully''),
            d\<lparr>visits := filter (\<lambda>v. patient_id v \<noteq> SInt i) (visits d),
              patients := filter (\<lambda>p. p_id p \<noteq> i) (patients d)\<rparr>))"
  by (simp add: delete_patient_def try_catch_def thenDo_def ret_def run_def transaction_def
      deleteVisits_def deletePatient_def list_ex_iff)

theorem delete_patient_cascade_witness:
  "delete_patient clinic_env (Some 1) clinic_db =
     (Response 200 (SuccessMessage ''Patient and records deleted successfully''),
      clinic_db\<lparr>visits := [], patients := [kebede]\<rparr>)
   \<and> delete_patient (clinic_env\<lparr>fails := (\<lambda>k. k = 1)\<rparr>) (Some 1) clinic_db =
     (Response 500 (ErrorDetail ''Internal server error: '' (SqliteError IOERR)), clinic_db)"
  using delete_patient_cascade [of clinic_env 1 clinic_db]
    delete_patient_cascade [of "clinic_env\<lparr>fails := (\<lambda>k. k = 1)\<rparr>" 1 clinic_db]
  by (simp add: clinic_env_def clinic_db_def first_visit_def abebe_def kebede_def)

section \<open>Recording a visit\<close>

text \<open>
  C10. The visit handler marks the patient before it inserts the visit, and no
  transaction spans the two statements. When the UPDATE has run and the request still
  ends in an error, the answer is the generic 500, no visit row has been added, and the
  patient rows with the visit's \<open>patient_id\<close> are 'Repeat' all the same.
\<close>

theorem add_visit_insert_failure:
  assumes "b ''patient_id'' = JNum i" and "\<not> fails e 0"
    and "add_visit e b d = (r, d')" and "status r \<noteq> 200"
  shows "r = Response 500 (ErrorBody ''Internal server error'')
       \<and> visits d' = visits d
       \<and> patients d' = map (set_repeat (SInt i)) (patients d)
       \<and> (\<forall>p\<in>set (patients d'). p_id p = i \<longrightarrow> patient_type p = SText ''Repeat'')"
proof -
  let ?d1 = "d\<lparr>patients := map (set_repeat (SInt i)) (patients d)\<rparr>"
  let ?ins = "run e 1 (visit_params b) (insert_visit e (new_visit e b))"
  have upd: "run e 0 [b ''patient_id''] (mark_repeat (numeric_column e (b ''patient_id''))) d
      = Inr ((), ?d1)"
    using assms(1,2) by (simp add: run_def mark_repeat_def)
  have av: "add_visit e b d =
      (case ?ins ?d1 of Inl (err, d2) \<Rightarrow> (internal_error err, d2)
       | Inr (k, d2) \<Rightarrow> (Response 200 (VisitCreated k), d2))"
    unfolding add_visit_def try_catch_def thenDo_def ret_def upd
    by (simp split: sum.splits prod.splits)
  have res: "r = Response 500 (ErrorBody ''Internal server error'') \<and> d' = ?d1"
  proof (cases "?ins ?d1")
    case (Inl x)
    obtain err d2 where x: "x = (err, d2)" by (cases x)
    from Inl x have "d2 = ?d1" by (auto dest: run_throws_unchanged)
    with Inl x av assms(3) show ?thesis by (simp add: internal_error_def)
  next
    case (Inr y)
    obtain k d2 where y: "y = (k, d2)" by (cases y)
    with Inr av assms(3) have "r = Response 200 (VisitCreated k)" by simp
    with assms(4) show ?thesis by simp
  qed
  then have v: "visits d' = visits d" and p: "patients d' = map (set_repeat (SInt i)) (patients d)"
    by simp_all
  have "\<forall>p\<in>set (patients d'). p_id p = i \<longrightarrow> patient_type p = SText ''Repeat''"
    unfolding p using in_map_set_repeat by blast
  with res v p show ?thesis by blast
qed

theorem add_visit_insert_failure_witness:
  "status (fst (add_visit (clinic_env\<lparr>fails := (\<lambda>k. k = 1)\<rparr>)
                  (no_fields(''patient_id'' := JNum 2)) clinic_db)) = 500
   \<and> visits (snd (add_visit (clinic_env\<lparr>fails := (\<lambda>k. k = 1)\<rparr>)
                  (no_fields(''patient_id'' := JNum 2)) clinic_db)) = visits clinic_db
   \<and> map patient_type (patients clinic_db) = [SText ''Repeat'', SText ''New'']
   \<and> map patient_type (patients (snd (add_visit (clinic_env\<lparr>fails := (\<lambda>k. k = 1)\<rparr>)
                  (no_fields(''patient_id'' := JNum 2)) clinic_db)))
       = [SText ''Repeat'', SText ''Repeat'']"
proof -
  let ?e = "clinic_env\<lparr>fails := (\<lambda>k. k = 1)\<rparr>" and ?b = "no_fields(''patient_id'' := JNum 2)"
  obtain r d' where ev: "add_visit ?e ?b clinic_db = (r, d')"
    by (cases "add_visit ?e ?b clinic_db")
  have b: "?b ''patient_id'' = JNum 2" by simp
  have f: "\<not> fails ?e 0" by (simp add: clinic_env_def)
  have st: "status r \<noteq> 200"
    using ev
    by (auto simp add: add_visit_def handler_defs clinic_env_def mark_repeat_def
        visit_params_def n_def no_fields_def)
  from add_visit_insert_failure [OF b f ev st] ev show ?thesis
    by (simp add: clinic_db_def abebe_def kebede_def set_repeat_def)
qed

text \<open>
  C9. A visit can be recorded without a patient. When the request carries no
  \<open>patient_id\<close> (null, or the key is absent) the UPDATE matches no row, the foreign key
  does not apply to NULL and the column is not declared NOT NULL: the visit row is
  inserted with \<open>patient_id\<close> NULL and the answer is 200, whether or not foreign keys are
  enforced.
\<close>

theorem add_visit_without_patient:
  assumes "b ''patient_id'' = JNull \<or> b ''patient_id'' = JUndefined"
    and "list_all bindable (visit_params b)" and "\<not> fails e 0" and "\<not> fails e 1"
  shows "add_visit e b d =
           (Response 200 (VisitCreated (next_rowid (visits_seq d) (map v_id (visits d)))),
            d\<lparr>visits := visits d @
                 [(new_visit e b)\<lparr>v_id := next_rowid (visits_seq d) (map v_id (visits d))\<rparr>],
              visits_seq := next_rowid (visits_seq d) (map v_id (visits d))\<rparr>)
         \<and> patient_id (new_visit e b) = SNull"
proof -
  have pid: "to_sql (b ''patient_id'') = SNull" and bp: "bindable (b ''patient_id'')"
    using assms(1) by auto
  have nc: "numeric_column e (b ''patient_id'') = SNull"
    using pid by simp
  have pn: "patient_id (new_visit e b) = SNull"
    using nc by (simp add: new_visit_def)
  show ?thesis
    using assms(2-4) bp
    by (simp add: add_visit_def try_catch_def thenDo_def ret_def run_def mark_repeat_def
        insert_visit_def nc pn set_repeat_null Let_def)
qed

theorem add_visit_without_patient_witness:
  "add_visit clinic_env (no_fields(''patient_id'' := JNull)) empty_db =
     (Response 200 (VisitCreated 1),
      empty_db\<lparr>visits := [(new_visit clinic_env (no_fields(''patient_id'' := JNull)))\<lparr>v_id := 1\<rparr>],
               visits_seq := 1\<rparr>)
   \<and> patient_id (new_visit clinic_env (no_fields(''patient_id'' := JNull))) = SNull
   \<and> patients empty_db = [] \<and> foreign_keys clinic_env"
proof -
  have "list_all bindable (visit_params (no_fields(''patient_id'' := JNull)))"
    by (simp add: visit_params_def n_def no_fields_def)
  from add_visit_without_patient [OF _ this, of clinic_env empty_db]
  show ?thesis
    by (simp add: clinic_env_def empty_db_def next_rowid_def)
qed

text \<open>
  A visit for an identifier that no patient row has is refused only by the foreign key:
  with foreign keys enforced the INSERT fails and the answer is 500, without them the
  visit row is inserted.
\<close>

lemma add_visit_unknown_patient:
  assumes "b ''patient_id'' = JNum i" and "list_all bindable (visit_params b)"
    and "\<not> fails e 0" and "\<not> fails e 1"
    and "\<not> list_ex (\<lambda>p. p_id p = i) (patients d)"
  shows "add_visit e b d =
     (if foreign_keys e then (Response 500 (ErrorBody ''Internal server error''), d)
      else (Response 200 (VisitCreated (next_rowid (visits_seq d) (map v_id (visits d)))),
            d\<lparr>visits := visits d @
                 [(new_visit e b)\<lparr>v_id := next_rowid (visits_seq d) (map v_id (visits d))\<rparr>],
              visits_seq := next_rowid (visits_seq d) (map v_id (visits d))\<rparr>))"
proof -
  have pn: "patient_id (new_visit e b) = SInt i"
    using assms(1) by (simp add: new_visit_def)
  have same: "map (set_repeat (SInt i)) (patients d) = patients d"
    using assms(5) unfolding list_ex_iff
    by (intro map_idI set_repeat_miss) auto
  show ?thesis
    using assms
    by (simp add: add_visit_def try_catch_def thenDo_def ret_def run_def mark_repeat_def
        insert_visit_def internal_error_def pn same Let_def)
qed

text \<open>
  A \<open>patient_id\<close> sent as the text "2" is the identifier 2: Kebede is marked, the foreign
  key is satisfied and the visit row holds the number.
\<close>

lemma add_visit_text_patient_id:
  "fst (add_visit clinic_env (no_fields(''patient_id'' := JStr ''2'')) clinic_db)
     = Response 200 (VisitCreated 2)
   \<and> map patient_id (visits (snd (add_visit clinic_env (no_fields(''patient_id'' := JStr ''2''))
         clinic_db))) = [SInt 1, SInt 2]
   \<and> map patient_type (patients (snd (add_visit clinic_env
         (no_fields(''patient_id'' := JStr ''2'')) clinic_db)))
     = [SText ''Repeat'', SText ''Repeat'']"
  by (simp add: eval_defs example_defs)

section \<open>Registering a patient\<close>

text \<open>What the registration handler answers when its parameters bind and the INSERT runs.\<close>

lemma create_patient_result:
  assumes "list_all bindable (patient_params e b)" and "\<not> fails e 0"
  shows "create_patient e b d =
     (if to_sql (b ''name'') = SNull \<or>
         (to_sql (finalMrn e b) \<noteq> SNull \<and>
          list_ex (\<lambda>p. mrn p = text_affinity e (to_sql (finalMrn e b))) (patients d))
      then (Response 500 (ErrorBody ''Internal server error''), d)
      else (Response 200 (PatientCreated (next_rowid (patients_seq d) (map p_id (patients d)))
                            (to_sql (finalMrn e b))),
            d\<lparr>patients := patients d @
                 [(new_patient e b)\<lparr>p_id := next_rowid (patients_seq d) (map p_id (patients d))\<rparr>],
              patients_seq := next_rowid (patients_seq d) (map p_id (patients d))\<rparr>))"
proof -
  have nm: "name (new_patient e b) = text_column e b ''name''"
    and mr: "mrn (new_patient e b) = text_affinity e (to_sql (finalMrn e b))"
    by (simp_all add: new_patient_def)
  show ?thesis
    using assms
    by (simp add: create_patient_def try_catch_def thenDo_def ret_def run_def internal_error_def
        insert_patient_def nm mr Let_def)
qed


text \<open>
  C7. A registration whose \<open>mrn\<close> is already present fails, and the store is unchanged,
  but the answer is the generic 500 \<open>{error: "Internal server error"}\<close>: the catch
  block of this handler does not look at the error code.
\<close>

theorem create_patient_duplicate_mrn:
  assumes "b ''mrn'' = JStr m" and "m \<noteq> []"
    and "list_all bindable (patient_params e b)" and "\<not> fails e 0"
    and "p \<in> set (patients d)" and "mrn p = SText m"
  shows "create_patient e b d = (Response 500 (ErrorBody ''Internal server error''), d)"
proof -
  have fm: "to_sql (finalMrn e b) = SText m"
    using assms(1,2) by (simp add: finalMrn_def js_or_def)
  have "list_ex (\<lambda>p. mrn p = SText m) (patients d)"
    unfolding list_ex_iff using assms(5,6) by blast
  then show ?thesis
    unfolding create_patient_result [OF assms(3,4)] fm by simp
qed

theorem create_patient_duplicate_mrn_witness:
  "create_patient clinic_env (no_fields(''name'' := JStr ''Almaz'', ''mrn'' := JStr ''100''))
     clinic_db = (Response 500 (ErrorBody ''Internal server error''), clinic_db)"
proof (rule create_patient_duplicate_mrn [where m = "''100''" and p = abebe])
  show "list_all bindable
     (patient_params clinic_env (no_fields(''name'' := JStr ''Almaz'', ''mrn'' := JStr ''100'')))"
    by (simp add: patient_params_def finalMrn_def js_or_def no_fields_def)
qed (simp_all add: clinic_env_def clinic_db_def abebe_def)

text \<open>
  The signup handler does look at it: a username that is already present is answered
  with 400 and a message of its own.
\<close>

lemma signup_duplicate_username:
  assumes "b ''username'' = JStr u" and "u \<noteq> []" and "b ''password'' = JStr pw" and "pw \<noteq> []"
    and "bindable (b ''full_name'')" and "bindable (b ''role'')" and "\<not> fails e 0"
    and "x \<in> set (users d)" and "username x = SText u"
  shows "signup e b d = (Response 400 (ErrorBody ''Username already exists''), d)"
proof -
  have "list_ex (\<lambda>x. username x = SText u) (users d)"
    unfolding list_ex_iff using assms(8,9) by blast
  then show ?thesis
    using assms(1-7)
    by (simp add: signup_def handler_defs bcrypt_hash_def insert_user_def Let_def)
qed

text \<open>
  An age sent as the text "45" is stored as the number 45, and an \<open>mrn\<close> sent as the number
  100 as the text "100.0".
\<close>

lemma create_patient_affinity:
  "map age (patients (snd (create_patient clinic_env
       (no_fields(''name'' := JStr ''Almaz'', ''age'' := JStr ''45'', ''mrn'' := JNum 100))
       empty_db))) = [SInt 45]
   \<and> map mrn (patients (snd (create_patient clinic_env
       (no_fields(''name'' := JStr ''Almaz'', ''age'' := JStr ''45'', ''mrn'' := JNum 100))
       empty_db))) = [SText ''100.0'']"
  by (simp add: eval_defs example_defs whole_double_def)





section \<open>The patient type\<close>

text \<open>
  An invariant of the store is kept by an action when it is kept by the statements the
  action runs.
\<close>

lemma keep_ret: "preserves (\<lambda>d d'. P d \<longrightarrow> P d') (ret x)"
  by (rule preserves_ret) simp

lemma keep_throw: "preserves (\<lambda>d d'. P d \<longrightarrow> P d') (throw x)"
  by (rule preserves_throw) simp

lemma keep_thenDo:
  "preserves (\<lambda>d d'. P d \<longrightarrow> P d') m \<Longrightarrow>
   (\<And>x. preserves (\<lambda>d d'. P d \<longrightarrow> P d') (f x)) \<Longrightarrow>
   preserves (\<lambda>d d'. P d \<longrightarrow> P d') (thenDo m f)"
  by (rule preserves_thenDo) auto

lemma keep_run:
  "(\<And>d r d'. st d = Inr (r, d') \<Longrightarrow> P d \<Longrightarrow> P d') \<Longrightarrow>
   preserves (\<lambda>d d'. P d \<longrightarrow> P d') (run e k ps st)"
  by (rule preserves_run) auto

lemma keep_transaction:
  "preserves (\<lambda>d d'. P d \<longrightarrow> P d') m \<Longrightarrow> preserves (\<lambda>d d'. P d \<longrightarrow> P d') (transaction m)"
  by (rule preserves_transaction) auto

lemma keep_try_catch:
  "preserves (\<lambda>d d'. P d \<longrightarrow> P d') m \<Longrightarrow> P d \<Longrightarrow> P (snd (try_catch m h d))"
  using preserves_try_catch [of "\<lambda>d d'. P d \<longrightarrow> P d'" m d h] by simp

lemma keep_bcrypt_hash: "preserves (\<lambda>d d'. P d \<longrightarrow> P d') (bcrypt_hash e pw)"
  by (cases pw) (simp_all add: bcrypt_hash_def keep_ret keep_throw)

lemma keep_bcrypt_compare: "preserves (\<lambda>d d'. P d \<longrightarrow> P d') (bcrypt_compare e pw h)"
  by (cases pw; cases h) (simp_all add: bcrypt_compare_def keep_ret keep_throw)

lemma keep_login_role: "preserves (\<lambda>d d'. P d \<longrightarrow> P d') (login_role u)"
  by (cases u) (simp_all add: login_role_def keep_ret keep_throw)

lemmas keep_rules =
  keep_ret keep_throw keep_thenDo keep_run keep_transaction
  keep_bcrypt_hash keep_bcrypt_compare keep_login_role

text \<open>The statements that leave the patients table alone.\<close>

lemma patients_untouched:
  "insert_user e un pw fn rl d = Inr (r1, d') \<Longrightarrow>
     patients d' = patients d \<and> patients_seq d' = patients_seq d"
  "select_user e un d = Inr (r2, d') \<Longrightarrow>
     patients d' = patients d \<and> patients_seq d' = patients_seq d"
  "deleteVisits j d = Inr (r3, d') \<Longrightarrow>
     patients d' = patients d \<and> patients_seq d' = patients_seq d"
  "delete_visit_row j d = Inr (r4, d') \<Longrightarrow>
     patients d' = patients d \<and> patients_seq d' = patients_seq d"
  "insert_visit e row d = Inr (r5, d') \<Longrightarrow>
     patients d' = patients d \<and> patients_seq d' = patients_seq d"
  by (auto simp: insert_user_def select_user_def deleteVisits_def delete_visit_row_def
      insert_visit_def Let_def split: if_splits)

lemma handed_out_same:
  "patients d' = patients d \<and> patients_seq d' = patients_seq d \<Longrightarrow> handed_out d \<Longrightarrow> handed_out d'"
  by (simp add: handed_out_def)

lemma has_type_same:
  "patients d' = patients d \<and> patients_seq d' = patients_seq d \<Longrightarrow> has_type i t d \<Longrightarrow> has_type i t d'"
  by (simp add: has_type_def)

lemma set_where_id: "p_id (set_where e b i p) = p_id p"
  by (cases "p_id p = i") (simp_all add: set_where_def set_fields_def)

lemma set_where_hit:
  "p_id p = i \<Longrightarrow> patient_type (set_where e b i p) = text_column e b ''patient_type''"
  by (simp add: set_where_def set_fields_def)

lemma set_where_miss: "p_id p \<noteq> i \<Longrightarrow> set_where e b i p = p"
  by (simp add: set_where_def)

lemma in_map_set_where:
  assumes "q \<in> set (map (set_where e b i) ps)" and "p_id q = i"
  shows "patient_type q = text_column e b ''patient_type''"
proof -
  from assms(1) obtain p where p: "q = set_where e b i p"
    by (auto simp only: set_map image_iff)
  with assms(2) have "p_id p = i" by (simp only: set_where_id)
  then show ?thesis unfolding p by (simp only: set_where_hit)
qed

lemma handed_out_insert_patient:
  assumes "insert_patient row d = Inr (r, d')" and "handed_out d"
  shows "handed_out d'"
proof -
  let ?k = "next_rowid (patients_seq d) (map p_id (patients d))"
  from assms(1) have d': "d' = d\<lparr>patients := patients d @ [row\<lparr>p_id := ?k\<rparr>], patients_seq := ?k\<rparr>"
    by (auto simp: insert_patient_def Let_def split: if_splits)
  have k: "patients_seq d < ?k" by (rule next_rowid_gt)
  have "list_all (\<lambda>p. p_id p \<le> ?k) (patients d)"
    using assms(2) k unfolding handed_out_def list_all_iff by fastforce
  then show ?thesis unfolding d' by (simp add: handed_out_def)
qed

lemma handed_out_deletePatient:
  "deletePatient e j d = Inr (r, d') \<Longrightarrow> handed_out d \<Longrightarrow> handed_out d'"
  by (auto simp: deletePatient_def handed_out_def list_all_filter_keep split: if_splits)

lemma list_all_map_same:
  "list_all (\<lambda>x. g x \<le> (s::int)) xs \<Longrightarrow> (\<And>x. g (f x) = g x) \<Longrightarrow> list_all (\<lambda>x. g x \<le> s) (map f xs)"
  by (induction xs) auto

lemma handed_out_mark_repeat:
  assumes "mark_repeat pid d = Inr (r, d')" and "handed_out d"
  shows "handed_out d'"
proof -
  from assms(1) have d': "d' = d\<lparr>patients := map (set_repeat pid) (patients d)\<rparr>"
    by (auto simp: mark_repeat_def)
  from assms(2) have "list_all (\<lambda>p. p_id p \<le> patients_seq d) (map (set_repeat pid) (patients d))"
    unfolding handed_out_def by (rule list_all_map_same) (rule set_repeat_id)
  then show ?thesis unfolding d' by (simp add: handed_out_def)
qed

lemma handed_out_update_patient_row:
  assumes "update_patient_row e b ido d = Inr (r, d')" and "handed_out d"
  shows "handed_out d'"
proof (cases ido)
  case None
  with assms show ?thesis by (simp add: update_patient_row_def)
next
  case (Some i)
  from assms(2) have "list_all (\<lambda>p. p_id p \<le> patients_seq d) (map (set_where e b i) (patients d))"
    unfolding handed_out_def by (rule list_all_map_same) (rule set_where_id)
  then have "handed_out (d\<lparr>patients := map (set_where e b i) (patients d)\<rparr>)"
    by (simp add: handed_out_def)
  with assms Some show ?thesis
    by (auto simp: update_patient_row_def split: if_splits)
qed

lemmas handed_out_statements =
  handed_out_same [OF patients_untouched(1)] handed_out_same [OF patients_untouched(2)]
  handed_out_same [OF patients_untouched(3)] handed_out_same [OF patients_untouched(4)]
  handed_out_same [OF patients_untouched(5)]
  handed_out_insert_patient handed_out_deletePatient handed_out_mark_repeat
  handed_out_update_patient_row

text \<open>The summary handler only reads.\<close>

lemma same_ret: "preserves (\<lambda>d d'. d' = d) (ret x)"
  by (rule preserves_ret) simp

lemma same_thenDo:
  "preserves (\<lambda>d d'. d' = d) m \<Longrightarrow> (\<And>x. preserves (\<lambda>d d'. d' = d) (f x)) \<Longrightarrow>
   preserves (\<lambda>d d'. d' = d) (thenDo m f)"
  by (rule preserves_thenDo) auto

lemma same_run:
  "(\<And>d r d'. st d = Inr (r, d') \<Longrightarrow> d' = d) \<Longrightarrow> preserves (\<lambda>d d'. d' = d) (run e k ps st)"
  by (rule preserves_run) auto

lemma get_summary_reads: "snd (get_summary e q d) = d"
  unfolding get_summary_def Let_def
  by (rule preserves_try_catch [where R = "\<lambda>d d'. d' = d"])
     (auto intro!: same_ret same_thenDo same_run
       simp: count_patients_def conditionCounts_query_def gender_query_def recentVisits_query_def Let_def)

text \<open>Every request keeps the identifiers handed out, so they are in every store reached
  from the empty one.\<close>

lemma handed_out_handle: "handed_out d \<Longrightarrow> handed_out (snd (handle e rq d))"
proof (cases rq)
  case (Signup b)
  show "handed_out d \<Longrightarrow> ?thesis"
    unfolding Signup handle.simps signup_def Let_def
    by (rule keep_try_catch) (auto intro!: keep_rules elim: handed_out_statements)
next
  case (Login b)
  show "handed_out d \<Longrightarrow> ?thesis"
    unfolding Login handle.simps login_def Let_def
    by (rule keep_try_catch)
       (auto intro!: keep_rules elim: handed_out_statements split: option.splits)
next
  case (CreatePatient b)
  show "handed_out d \<Longrightarrow> ?thesis"
    unfolding CreatePatient handle.simps create_patient_def
    by (rule keep_try_catch) (auto intro!: keep_rules elim: handed_out_statements)
next
  case (DeletePatient j)
  show "handed_out d \<Longrightarrow> ?thesis"
    unfolding DeletePatient handle.simps delete_patient_def
    by (rule keep_try_catch)
       (auto intro!: keep_rules elim: handed_out_statements split: option.splits)
next
  case (DeleteVisit j)
  show "handed_out d \<Longrightarrow> ?thesis"
    unfolding DeleteVisit handle.simps delete_visit_def
    by (rule keep_try_catch)
       (auto intro!: keep_rules elim: handed_out_statements split: option.splits)
next
  case (UpdatePatient j b)
  show "handed_out d \<Longrightarrow> ?thesis"
    unfolding UpdatePatient handle.simps update_patient_def
    by (rule keep_try_catch) (auto intro!: keep_rules elim: handed_out_statements)
next
  case (AddVisit b)
  show "handed_out d \<Longrightarrow> ?thesis"
    unfolding AddVisit handle.simps add_visit_def
    by (rule keep_try_catch) (auto intro!: keep_rules elim: handed_out_statements)
next
  case (GetSummary q)
  show "handed_out d \<Longrightarrow> ?thesis"
    unfolding GetSummary handle.simps by (simp add: get_summary_reads)
qed

lemma handed_out_serve: "handed_out d \<Longrightarrow> handed_out (serve rs d)"
  by (induction rs arbitrary: d) (simp_all add: handed_out_handle)

lemma handed_out_reachable: "handed_out (serve rs empty_db)"
  by (rule handed_out_serve) (simp add: handed_out_def empty_db_def)

text \<open>
  Which statements keep the patient type of patient \<open>i\<close>. Registering and deleting do; the
  UPDATE of the visit handler does when its parameter is not \<open>i\<close>, or when the type is
  'Repeat' already; the UPDATE of the update handler does when its identifier is not \<open>i\<close>.
\<close>

lemma set_repeat_keeps:
  "pid \<noteq> SInt i \<or> t = SText ''Repeat'' \<Longrightarrow> p_id p = i \<longrightarrow> patient_type p = t \<Longrightarrow>
   p_id (set_repeat pid p) = i \<longrightarrow> patient_type (set_repeat pid p) = t"
  by (cases "SInt (p_id p) = pid") (auto simp: set_repeat_def)

lemma set_where_keeps:
  "j \<noteq> i \<Longrightarrow> p_id p = i \<longrightarrow> patient_type p = t \<Longrightarrow>
   p_id (set_where e b j p) = i \<longrightarrow> patient_type (set_where e b j p) = t"
  by (cases "p_id p = j") (simp_all add: set_where_def set_fields_def)

lemma has_type_insert_patient:
  assumes "insert_patient row d = Inr (r, d')" and "has_type i t d"
  shows "has_type i t d'"
proof -
  let ?k = "next_rowid (patients_seq d) (map p_id (patients d))"
  from assms(1) have d': "d' = d\<lparr>patients := patients d @ [row\<lparr>p_id := ?k\<rparr>], patients_seq := ?k\<rparr>"
    by (auto simp: insert_patient_def Let_def split: if_splits)
  have k: "patients_seq d < ?k" by (rule next_rowid_gt)
  with assms(2) have "i < ?k" by (simp add: has_type_def)
  with assms(2) show ?thesis unfolding d' by (simp add: has_type_def)
qed

lemma has_type_deletePatient: "deletePatient e j d = Inr (r, d') \<Longrightarrow> has_type i t d \<Longrightarrow> has_type i t d'"
  by (auto simp: deletePatient_def has_type_def list_all_filter_keep split: if_splits)

lemma has_type_mark_repeat:
  assumes "mark_repeat pid d = Inr (r, d')" and "pid \<noteq> SInt i \<or> t = SText ''Repeat''"
    and "has_type i t d"
  shows "has_type i t d'"
proof -
  from assms(1) have d': "d' = d\<lparr>patients := map (set_repeat pid) (patients d)\<rparr>"
    by (auto simp: mark_repeat_def)
  from assms(3) have "list_all (\<lambda>p. p_id p = i \<longrightarrow> patient_type p = t) (patients d)"
    by (simp add: has_type_def)
  then have "list_all (\<lambda>p. p_id p = i \<longrightarrow> patient_type p = t) (map (set_repeat pid) (patients d))"
    by (rule list_all_map_keep) (rule set_repeat_keeps [OF assms(2)])
  with assms(3) show ?thesis unfolding d' by (simp add: has_type_def)
qed

lemma has_type_update_patient_row:
  assumes "update_patient_row e b ido d = Inr (r, d')" and "ido \<noteq> Some i" and "has_type i t d"
  shows "has_type i t d'"
proof (cases ido)
  case None
  with assms show ?thesis by (simp add: update_patient_row_def)
next
  case (Some j)
  with assms(2) have ji: "j \<noteq> i" by simp
  from assms(3) have "list_all (\<lambda>p. p_id p = i \<longrightarrow> patient_type p = t) (patients d)"
    by (simp add: has_type_def)
  then have "list_all (\<lambda>p. p_id p = i \<longrightarrow> patient_type p = t) (map (set_where e b j) (patients d))"
    by (rule list_all_map_keep) (rule set_where_keeps [OF ji])
  with assms(3) have "has_type i t (d\<lparr>patients := map (set_where e b j) (patients d)\<rparr>)"
    by (simp add: has_type_def)
  with assms(1,3) Some show ?thesis
    by (auto simp: update_patient_row_def split: if_splits)
qed

lemmas has_type_statements =
  has_type_same [OF patients_untouched(1)] has_type_same [OF patients_untouched(2)]
  has_type_same [OF patients_untouched(3)] has_type_same [OF patients_untouched(4)]
  has_type_same [OF patients_untouched(5)]
  has_type_insert_patient has_type_deletePatient

text \<open>
  A request that is not a PUT for patient \<open>i\<close> keeps the patient type of patient \<open>i\<close>,
  unless the type is not 'Repeat' and the request is a visit for patient \<open>i\<close>.
\<close>

lemma has_type_handle:
  assumes "\<not> puts i rq" and "t = SText ''Repeat'' \<or> \<not> records e i rq" and "has_type i t d"
  shows "has_type i t (snd (handle e rq d))"
proof (cases rq)
  case (Signup b)
  from assms(3) show ?thesis
    unfolding Signup handle.simps signup_def Let_def
    by (rule keep_try_catch [rotated]) (auto intro!: keep_rules elim: has_type_statements)
next
  case (Login b)
  from assms(3) show ?thesis
    unfolding Login handle.simps login_def Let_def
    by (rule keep_try_catch [rotated])
       (auto intro!: keep_rules elim: has_type_statements split: option.splits)
next
  case (CreatePatient b)
  from assms(3) show ?thesis
    unfolding CreatePatient handle.simps create_patient_def
    by (rule keep_try_catch [rotated]) (auto intro!: keep_rules elim: has_type_statements)
next
  case (DeletePatient j)
  from assms(3) show ?thesis
    unfolding DeletePatient handle.simps delete_patient_def
    by (rule keep_try_catch [rotated])
       (auto intro!: keep_rules elim: has_type_statements split: option.splits)
next
  case (DeleteVisit j)
  from assms(3) show ?thesis
    unfolding DeleteVisit handle.simps delete_visit_def
    by (rule keep_try_catch [rotated])
       (auto intro!: keep_rules elim: has_type_statements split: option.splits)
next
  case (UpdatePatient j b)
  with assms(1) have ne: "j \<noteq> Some i" by simp
  from assms(3) show ?thesis
    unfolding UpdatePatient handle.simps update_patient_def
    by (rule keep_try_catch [rotated])
       (auto intro!: keep_rules elim: has_type_update_patient_row [OF _ ne])
next
  case (AddVisit b)
  with assms(2) have ne: "numeric_column e (b ''patient_id'') \<noteq> SInt i \<or> t = SText ''Repeat''"
    by auto
  from assms(3) show ?thesis
    unfolding AddVisit handle.simps add_visit_def
    by (rule keep_try_catch [rotated])
       (auto intro!: keep_rules elim: has_type_statements has_type_mark_repeat [OF _ ne])
next
  case (GetSummary q)
  from assms(3) show ?thesis
    unfolding GetSummary handle.simps by (simp add: get_summary_reads)
qed

lemma has_type_serve:
  "list_all (\<lambda>x. \<not> puts i (snd x) \<and> (t = SText ''Repeat'' \<or> \<not> records (fst x) i (snd x))) rs \<Longrightarrow>
   has_type i t d \<Longrightarrow> has_type i t (serve rs d)"
  by (induction rs arbitrary: d) (simp_all add: has_type_handle)

text \<open>A parameter that denotes an identifier is a number or a text, so it binds.\<close>

lemma numeric_column_bindable: "numeric_column e x = SInt i \<Longrightarrow> bindable x"
  by (cases x) (simp_all add: numeric_column_def)

lemma add_visit_patients:
  assumes "numeric_column e (b ''patient_id'') = SInt i" and "\<not> fails e 0"
  shows "patients (snd (add_visit e b d)) = map (set_repeat (SInt i)) (patients d)
       \<and> patients_seq (snd (add_visit e b d)) = patients_seq d"
proof -
  let ?d1 = "d\<lparr>patients := map (set_repeat (SInt i)) (patients d)\<rparr>"
  let ?ins = "run e 1 (visit_params b) (insert_visit e (new_visit e b))"
  have "bindable (b ''patient_id'')" using assms(1) by (rule numeric_column_bindable)
  then have upd: "run e 0 [b ''patient_id''] (mark_repeat (numeric_column e (b ''patient_id''))) d
      = Inr ((), ?d1)"
    using assms(1,2) by (simp add: run_def mark_repeat_def)
  have av: "add_visit e b d =
      (case ?ins ?d1 of Inl (err, d2) \<Rightarrow> (internal_error err, d2)
       | Inr (k, d2) \<Rightarrow> (Response 200 (VisitCreated k), d2))"
    unfolding add_visit_def try_catch_def thenDo_def ret_def upd
    by (simp split: sum.splits prod.splits)
  show ?thesis
  proof (cases "?ins ?d1")
    case (Inl x)
    obtain err d2 where x: "x = (err, d2)" by (cases x)
    from Inl x have "d2 = ?d1" by (auto dest: run_throws_unchanged)
    with Inl x av show ?thesis by simp
  next
    case (Inr y)
    obtain k d2 where y: "y = (k, d2)" by (cases y)
    from Inr y have "insert_visit e (new_visit e b) ?d1 = Inr (k, d2)" by (auto dest: run_returns)
    then have "patients d2 = patients ?d1 \<and> patients_seq d2 = patients_seq ?d1"
      by (auto simp: insert_visit_def Let_def split: if_splits)
    with Inr y av show ?thesis by simp
  qed
qed

lemma repeat_after_visit:
  assumes "numeric_column e (b ''patient_id'') = SInt i" and "\<not> fails e 0"
    and "p0 \<in> set (patients d)" and "p_id p0 = i" and "p_id p0 \<le> patients_seq d"
  shows "has_type i (SText ''Repeat'') (snd (add_visit e b d))"
proof -
  note ap = add_visit_patients [where b = b and i = i and e = e and d = d, OF assms(1,2)]
  have "list_all (\<lambda>p. p_id p = i \<longrightarrow> patient_type p = SText ''Repeat'')
          (map (set_repeat (SInt i)) (patients d))"
    unfolding list_all_iff using in_map_set_repeat by blast
  with ap assms(4,5) show ?thesis by (simp add: has_type_def)
qed

text \<open>What the update handler does when its parameters bind and the UPDATE runs.\<close>

lemma update_patient_result:
  assumes "list_all bindable (update_params b)" and "\<not> fails e 0"
    and "to_sql (b ''name'') \<noteq> SNull"
    and "\<not> list_ex (\<lambda>p. p_id p \<noteq> i \<and> mrn p = text_column e b ''mrn'') (patients d)"
  shows "update_patient e (Some i) b d =
           (Response 200 Success, d\<lparr>patients := map (set_where e b i) (patients d)\<rparr>)"
proof (cases "list_ex (\<lambda>p. p_id p = i) (patients d)")
  case True
  with assms show ?thesis
    by (simp add: update_patient_def try_catch_def thenDo_def ret_def run_def
        update_patient_row_def)
next
  case False
  then have "map (set_where e b i) (patients d) = patients d"
    unfolding list_ex_iff by (intro map_idI set_where_miss) auto
  with False assms(1,2) show ?thesis
    by (simp add: update_patient_def try_catch_def thenDo_def ret_def run_def
        update_patient_row_def)
qed

text \<open>What the registration handler stores when it answers 200.\<close>

lemma create_patient_stored:
  assumes "list_all bindable (patient_params e b)" and "\<not> fails e 0"
    and "status (fst (create_patient e b d)) = 200"
  shows "patients (snd (create_patient e b d)) =
           patients d @ [(new_patient e b)\<lparr>p_id := next_rowid (patients_seq d) (map p_id (patients d))\<rparr>]
       \<and> patients_seq (snd (create_patient e b d)) = next_rowid (patients_seq d) (map p_id (patients d))"
  using assms(3) unfolding create_patient_result [OF assms(1,2)] by (simp split: if_splits)

text \<open>
  C1, as the code has it. (1) A registered patient has the patient type that was sent, and
  'New' when none was sent; the new row has the identifier the sequence has reached, above
  every identifier of a store whose identifiers are handed out. (2) The patient type of
  patient \<open>i\<close>, whatever it is, stays what it is under every sequence of requests that
  holds neither a PUT for patient \<open>i\<close> nor a visit for patient \<open>i\<close>: 'New' stays 'New'
  until the first visit for that patient. (3) Recording a visit whose \<open>patient_id\<close> denotes
  the existing patient \<open>i\<close>, as a number or as a text, makes that patient 'Repeat' (whether
  or not the visit row is then inserted), and the patient stays 'Repeat' under every later
  sequence of requests that holds no PUT for patient \<open>i\<close>: deleting visits, recording
  visits, registering and deleting patients, updating other patients, signing up, logging
  in and reading the summary do not change it. (4) A PUT for patient \<open>i\<close> that runs stores
  the fifteen fields of the request in the rows of patient \<open>i\<close>, so their patient type is
  the one the request carries, and NULL when it carries none.
\<close>

theorem patient_type_lifecycle:
  "(list_all bindable (patient_params e b) \<and> \<not> fails e 0
      \<and> status (fst (create_patient e b d)) = 200
    \<longrightarrow> (\<exists>q. patients (snd (create_patient e b d)) = patients d @ [q]
           \<and> p_id q = patients_seq (snd (create_patient e b d))
           \<and> (handed_out d \<longrightarrow> (\<forall>p\<in>set (patients d). p_id p < p_id q))
           \<and> patient_type q =
               (if truthy (b ''patient_type'') then text_affinity e (to_sql (b ''patient_type''))
                else SText ''New'')))
   \<and> (i \<le> patients_seq d \<and> (\<forall>p\<in>set (patients d). p_id p = i \<longrightarrow> patient_type p = t)
      \<and> (\<forall>x\<in>set rs. \<not> puts i (snd x) \<and> \<not> records (fst x) i (snd x))
    \<longrightarrow> (\<forall>p\<in>set (patients (serve rs d)). p_id p = i \<longrightarrow> patient_type p = t))
   \<and> (numeric_column ve (vb ''patient_id'') = SInt i \<and> \<not> fails ve 0
      \<and> handed_out d \<and> (\<exists>p\<in>set (patients d). p_id p = i)
      \<and> (\<forall>x\<in>set rs. \<not> puts i (snd x))
    \<longrightarrow> (\<forall>p\<in>set (patients (serve rs (snd (add_visit ve vb d)))).
           p_id p = i \<longrightarrow> patient_type p = SText ''Repeat''))
   \<and> (list_all bindable (update_params ub) \<and> \<not> fails ue 0 \<and> to_sql (ub ''name'') \<noteq> SNull
      \<and> \<not> list_ex (\<lambda>p. p_id p \<noteq> i \<and> mrn p = text_column ue ub ''mrn'') (patients d)
    \<longrightarrow> update_patient ue (Some i) ub d =
          (Response 200 Success, d\<lparr>patients := map (set_where ue ub i) (patients d)\<rparr>)
        \<and> (\<forall>p\<in>set (patients (snd (update_patient ue (Some i) ub d))).
             p_id p = i \<longrightarrow> patient_type p = text_affinity ue (to_sql (ub ''patient_type''))))"
proof (intro conjI impI)
  assume a: "list_all bindable (patient_params e b) \<and> \<not> fails e 0
      \<and> status (fst (create_patient e b d)) = 200"
  let ?k = "next_rowid (patients_seq d) (map p_id (patients d))"
  let ?q = "(new_patient e b)\<lparr>p_id := ?k\<rparr>"
  have pt: "patient_type ?q =
      (if truthy (b ''patient_type'') then text_affinity e (to_sql (b ''patient_type''))
       else SText ''New'')"
    by (simp add: new_patient_def js_or_def)
  from a have a1: "list_all bindable (patient_params e b)" and a2: "\<not> fails e 0"
    and a3: "status (fst (create_patient e b d)) = 200"
    by simp_all
  note st = create_patient_stored [OF a1 a2 a3]
  have k: "patients_seq d < ?k" by (rule next_rowid_gt)
  have id: "p_id ?q = patients_seq (snd (create_patient e b d))"
    using st by simp
  have below: "handed_out d \<longrightarrow> (\<forall>p\<in>set (patients d). p_id p < p_id ?q)"
    using k unfolding handed_out_def list_all_iff by fastforce
  from st pt id below
  show "\<exists>q. patients (snd (create_patient e b d)) = patients d @ [q]
           \<and> p_id q = patients_seq (snd (create_patient e b d))
           \<and> (handed_out d \<longrightarrow> (\<forall>p\<in>set (patients d). p_id p < p_id q))
           \<and> patient_type q =
               (if truthy (b ''patient_type'') then text_affinity e (to_sql (b ''patient_type''))
                else SText ''New'')"
    by blast
next
  assume a: "i \<le> patients_seq d \<and> (\<forall>p\<in>set (patients d). p_id p = i \<longrightarrow> patient_type p = t)
      \<and> (\<forall>x\<in>set rs. \<not> puts i (snd x) \<and> \<not> records (fst x) i (snd x))"
  then have "has_type i t d" by (simp add: has_type_def list_all_iff)
  moreover from a
  have "list_all (\<lambda>x. \<not> puts i (snd x) \<and> (t = SText ''Repeat'' \<or> \<not> records (fst x) i (snd x))) rs"
    by (simp add: list_all_iff)
  ultimately have "has_type i t (serve rs d)"
    by (rule has_type_serve [rotated])
  then show "\<forall>p\<in>set (patients (serve rs d)). p_id p = i \<longrightarrow> patient_type p = t"
    by (simp add: has_type_def list_all_iff)
next
  assume a: "numeric_column ve (vb ''patient_id'') = SInt i \<and> \<not> fails ve 0
      \<and> handed_out d \<and> (\<exists>p\<in>set (patients d). p_id p = i)
      \<and> (\<forall>x\<in>set rs. \<not> puts i (snd x))"
  then obtain p0 where p0: "p0 \<in> set (patients d)" "p_id p0 = i" "p_id p0 \<le> patients_seq d"
    unfolding handed_out_def list_all_iff by blast
  from a have "has_type i (SText ''Repeat'') (snd (add_visit ve vb d))"
    using repeat_after_visit [OF _ _ p0] by blast
  moreover from a
  have "list_all (\<lambda>x. \<not> puts i (snd x)
          \<and> (SText ''Repeat'' = SText ''Repeat'' \<or> \<not> records (fst x) i (snd x))) rs"
    by (simp add: list_all_iff)
  ultimately have "has_type i (SText ''Repeat'') (serve rs (snd (add_visit ve vb d)))"
    by (rule has_type_serve [rotated])
  then show "\<forall>p\<in>set (patients (serve rs (snd (add_visit ve vb d)))).
           p_id p = i \<longrightarrow> patient_type p = SText ''Repeat''"
    by (simp add: has_type_def list_all_iff)
next
  assume a: "list_all bindable (update_params ub) \<and> \<not> fails ue 0 \<and> to_sql (ub ''name'') \<noteq> SNull
      \<and> \<not> list_ex (\<lambda>p. p_id p \<noteq> i \<and> mrn p = text_column ue ub ''mrn'') (patients d)"
  then have a1: "list_all bindable (update_params ub)" and a2: "\<not> fails ue 0"
    and a3: "to_sql (ub ''name'') \<noteq> SNull"
    and a4: "\<not> list_ex (\<lambda>p. p_id p \<noteq> i \<and> mrn p = text_column ue ub ''mrn'') (patients d)"
    by simp_all
  note up = update_patient_result [OF a1 a2 a3 a4]
  show "update_patient ue (Some i) ub d =
          (Response 200 Success, d\<lparr>patients := map (set_where ue ub i) (patients d)\<rparr>)"
    by (rule up)
  have "patients (snd (update_patient ue (Some i) ub d)) = map (set_where ue ub i) (patients d)"
    unfolding up by simp
  then show "\<forall>p\<in>set (patients (snd (update_patient ue (Some i) ub d))).
             p_id p = i \<longrightarrow> patient_type p = text_affinity ue (to_sql (ub ''patient_type''))"
    using in_map_set_where [of _ ue ub i "patients d"] by (simp add: text_column_def)
qed

theorem patient_type_lifecycle_witness:
  "map patient_type
     (patients (snd (create_patient clinic_env (no_fields(''name'' := JStr ''Almaz'')) clinic_db)))
     = [SText ''Repeat'', SText ''New'', SText ''New'']
   \<and> patient_type kebede = SText ''New''
   \<and> list_all (\<lambda>p. p_id p = 2 \<longrightarrow> patient_type p = SText ''New'')
        (patients (serve [(clinic_env, AddVisit (no_fields(''patient_id'' := JNum 1))),
                          (clinic_env, UpdatePatient (Some 1) (no_fields(''name'' := JStr ''Abebe''))),
                          (clinic_env, DeleteVisit (Some 1))] clinic_db))
   \<and> list_all (\<lambda>p. p_id p = 2 \<longrightarrow> patient_type p = SText ''Repeat'')
        (patients (serve [(clinic_env, DeleteVisit (Some 2)), (clinic_env, DeletePatient (Some 1)),
                          (clinic_env, UpdatePatient (Some 1) (no_fields(''name'' := JStr ''Abebe'')))]
                     (snd (add_visit clinic_env (no_fields(''patient_id'' := JStr ''2'')) clinic_db))))
   \<and> map patient_type
       (patients (snd (update_patient clinic_env (Some 1) (no_fields(''name'' := JStr ''Abebe''))
                         clinic_db)))
     = [SNull, SText ''New'']"
proof -
  let ?b = "no_fields(''name'' := JStr ''Almaz'')" and ?vb = "no_fields(''patient_id'' := JStr ''2'')"
  let ?ub = "no_fields(''name'' := JStr ''Abebe'')"
  let ?rs = "[(clinic_env, AddVisit (no_fields(''patient_id'' := JNum 1))),
              (clinic_env, UpdatePatient (Some 1) ?ub), (clinic_env, DeleteVisit (Some 1))]"
  let ?rs' = "[(clinic_env, DeleteVisit (Some 2)), (clinic_env, DeletePatient (Some 1)),
               (clinic_env, UpdatePatient (Some 1) ?ub)]"
  note t = patient_type_lifecycle [where e = clinic_env and b = ?b and d = clinic_db and i = 2
      and t = "SText ''New''" and rs = ?rs and ve = clinic_env and vb = ?vb
      and ue = clinic_env and ub = ?ub]
  note t' = patient_type_lifecycle [where e = clinic_env and b = ?b and d = clinic_db and i = 2
      and t = "SText ''New''" and rs = ?rs' and ve = clinic_env and vb = ?vb
      and ue = clinic_env and ub = ?ub]
  note u = patient_type_lifecycle [where e = clinic_env and b = ?b and d = clinic_db and i = 1
      and t = "SText ''Repeat''" and rs = "[]" and ve = clinic_env and vb = ?vb
      and ue = clinic_env and ub = ?ub]
  have 1: "list_all bindable (patient_params clinic_env ?b)"
    by (simp add: patient_params_def finalMrn_def js_or_def no_fields_def)
  have 2: "\<not> fails clinic_env 0" by (simp add: clinic_env_def)
  have 3: "status (fst (create_patient clinic_env ?b clinic_db)) = 200"
    unfolding create_patient_result [OF 1 2]
    by (simp add: finalMrn_def js_or_def example_defs)
  have 4: "handed_out clinic_db" "2 \<le> patients_seq clinic_db"
    "\<exists>p\<in>set (patients clinic_db). p_id p = 2"
    "\<forall>p\<in>set (patients clinic_db). p_id p = 2 \<longrightarrow> patient_type p = SText ''New''"
    by (simp_all add: handed_out_def example_defs)
  have 5: "\<not> truthy (?b ''patient_type'')" by (simp add: no_fields_def)
  have 6: "map patient_type (patients clinic_db) = [SText ''Repeat'', SText ''New'']"
    by (simp add: example_defs)
  have 7: "\<forall>x\<in>set ?rs. \<not> puts 2 (snd x) \<and> \<not> records (fst x) 2 (snd x)"
    "\<forall>x\<in>set ?rs'. \<not> puts 2 (snd x)"
    by simp_all
  have 8: "numeric_column clinic_env (?vb ''patient_id'') = SInt 2"
    by (simp add: numeric_column_def numeric_affinity_def clinic_env_def integer_literal_def
        is_digit_def parseInt_def)
  have 9: "list_all bindable (update_params ?ub)" "to_sql (?ub ''name'') \<noteq> SNull"
    "\<not> list_ex (\<lambda>p. p_id p \<noteq> 1 \<and> mrn p = text_column clinic_env ?ub ''mrn'') (patients clinic_db)"
    by (simp_all add: update_params_def text_column_def example_defs)
  from t 1 2 3 5 obtain x
    where "patients (snd (create_patient clinic_env ?b clinic_db)) = patients clinic_db @ [x]"
      and "patient_type x = SText ''New''"
    by auto
  then have a: "map patient_type (patients (snd (create_patient clinic_env ?b clinic_db)))
      = [SText ''Repeat'', SText ''New'', SText ''New'']"
    using 6 by simp
  from t 4 7 have b: "list_all (\<lambda>p. p_id p = 2 \<longrightarrow> patient_type p = SText ''New'')
        (patients (serve ?rs clinic_db))"
    unfolding list_all_iff by blast
  from t' 2 4 7 8 have c: "list_all (\<lambda>p. p_id p = 2 \<longrightarrow> patient_type p = SText ''Repeat'')
        (patients (serve ?rs' (snd (add_visit clinic_env ?vb clinic_db))))"
    unfolding list_all_iff by blast
  from u 2 9 have "update_patient clinic_env (Some 1) ?ub clinic_db =
      (Response 200 Success,
       clinic_db\<lparr>patients := map (set_where clinic_env ?ub 1) (patients clinic_db)\<rparr>)"
    by blast
  then have d: "map patient_type (patients (snd (update_patient clinic_env (Some 1) ?ub clinic_db)))
      = [SNull, SText ''New'']"
    by (simp add: set_where_def set_fields_def text_column_def example_defs)
  from a b c d show ?thesis by (simp add: kebede_def)
qed

text \<open>
  C1 as stated fails. The update handler stores the patient type it is sent: Kebede, made
  'Repeat' by his first visit, is 'New' again after an update that says so, while his visit
  is still there. And a patient registered as 'Repeat' is 'Repeat' before any visit.
\<close>

theorem patient_type_reverts:
  "map patient_type (patients (snd (add_visit clinic_env (no_fields(''patient_id'' := JNum 2)) clinic_db)))
     = [SText ''Repeat'', SText ''Repeat'']
   \<and> map patient_type (patients
        (snd (update_patient clinic_env (Some 2)
               (no_fields(''name'' := JStr ''Kebede'', ''patient_type'' := JStr ''New''))
               (snd (add_visit clinic_env (no_fields(''patient_id'' := JNum 2)) clinic_db)))))
     = [SText ''Repeat'', SText ''New'']
   \<and> map patient_id (visits
        (snd (update_patient clinic_env (Some 2)
               (no_fields(''name'' := JStr ''Kebede'', ''patient_type'' := JStr ''New''))
               (snd (add_visit clinic_env (no_fields(''patient_id'' := JNum 2)) clinic_db)))))
     = [SInt 1, SInt 2]
   \<and> map patient_type (patients
        (snd (create_patient clinic_env
               (no_fields(''name'' := JStr ''Almaz'', ''patient_type'' := JStr ''Repeat'')) empty_db)))
     = [SText ''Repeat'']"
  by (simp add: eval_defs example_defs)

section \<open>The report summary\<close>

text \<open>Conditions that are true, in terms of the values compared.\<close>

lemma is_true_and: "is_true (sql_and a b) = (is_true a \<and> is_true b)"
  by (cases a; cases b) (auto simp: is_true_def sql_and_def)

lemma is_true_eq_text: "is_true (sql_eq a (SText x)) = (a = SText x)"
  by (auto simp: is_true_def sql_eq_def)

lemma is_true_and_not: "is_true (sql_and a (sql_not b)) = (is_true a \<and> b = Some False)"
  by (cases a; cases b) (auto simp: is_true_def sql_and_def sql_not_def)

lemma is_true_True: "is_true (Some True)"
  by (simp add: is_true_def)

text \<open>
  A pattern \<open>%w%\<close>, with no wildcard in \<open>w\<close>, matches the texts in which \<open>w\<close> occurs,
  the ASCII letters compared without regard to case.
\<close>

lemma like_any: "like_match ''%'' s"
  by (induction s) simp_all

lemma like_prefix:
  "CHR ''%'' \<notin> set w \<Longrightarrow> CHR ''_'' \<notin> set w \<Longrightarrow>
   like_match (w @ ''%'') s = starts_with (map ascii_lower w) (map ascii_lower s)"
proof (induction w arbitrary: s)
  case Nil
  then show ?case by (simp add: like_any)
next
  case (Cons c w)
  then show ?case by (cases s) auto
qed

lemma like_contains:
  assumes "CHR ''%'' \<notin> set w" and "CHR ''_'' \<notin> set w"
  shows "like_match (CHR ''%'' # w @ ''%'') s = js_includes (map ascii_lower s) (map ascii_lower w)"
proof (induction s)
  case Nil
  have "like_match (w @ ''%'') [] = (w = [])"
    using like_prefix [OF assms, of "[]"] by (cases w) simp_all
  then show ?case by simp
next
  case (Cons d s)
  have "like_match (w @ ''%'') (d # s) = starts_with (map ascii_lower w) (map ascii_lower (d # s))"
    by (rule like_prefix [OF assms])
  with Cons show ?case by simp
qed




lemma like_hypertension:
  "sql_like c ''%Hypertension%'' = (if c = SNull then None else Some (mentions ''Hypertension'' c))"
  using like_contains [of "''Hypertension''"]
  by (cases c) (simp_all add: sql_like_def mentions_def)

lemma like_diabetes:
  "sql_like c ''%Diabetes%'' = (if c = SNull then None else Some (mentions ''Diabetes'' c))"
  using like_contains [of "''Diabetes''"]
  by (cases c) (simp_all add: sql_like_def mentions_def)

lemma mentions_null: "\<not> mentions w SNull"
  by (simp add: mentions_def)

lemma or0_sum: "or0 (sql_sum (map (\<lambda>x. case_when (c x)) xs)) = count_where (\<lambda>x. is_true (c x)) xs"
proof -
  have "sum_list (map (\<lambda>x. case_when (c x)) xs) = int (length (filter (\<lambda>x. is_true (c x)) xs))"
    by (induction xs) (simp_all add: case_when_def)
  then show ?thesis by (simp add: or0_def sql_sum_def count_where_def)
qed

lemma hyp_true: "is_true (sql_like c ''%Hypertension%'') = mentions ''Hypertension'' c"
  by (simp add: like_hypertension is_true_def mentions_null)

lemma dia_true: "is_true (sql_like c ''%Diabetes%'') = mentions ''Diabetes'' c"
  by (simp add: like_diabetes is_true_def mentions_null)

lemma hyp_only_true:
  "is_true (sql_and (sql_like c ''%Hypertension%'') (sql_not (sql_like c ''%Diabetes%'')))
     = (mentions ''Hypertension'' c \<and> \<not> mentions ''Diabetes'' c)"
  by (simp add: is_true_and_not hyp_true) (simp add: like_diabetes mentions_null)

lemma dia_only_true:
  "is_true (sql_and (sql_like c ''%Diabetes%'') (sql_not (sql_like c ''%Hypertension%'')))
     = (mentions ''Diabetes'' c \<and> \<not> mentions ''Hypertension'' c)"
  by (simp add: is_true_and_not dia_true) (simp add: like_hypertension mentions_null)

lemma both_true:
  "is_true (sql_and (sql_like c ''%Hypertension%'') (sql_like c ''%Diabetes%''))
     = (mentions ''Hypertension'' c \<and> mentions ''Diabetes'' c)"
  by (simp add: is_true_and hyp_true dia_true)

text \<open>The WHERE clauses built from the query select the rows in the window.\<close>

lemma in_month_year_true:
  "is_true (in_month_year e (m, y) t) = (strftime e ''%m'' t = SText m \<and> strftime e ''%Y'' t = SText y)"
  by (simp add: in_month_year_def is_true_and is_true_eq_text)

lemma params_window:
  "params q = (if window_supplied q then Some (padStart (the (month q)) 2 CHR ''0'', the (year q)) else None)"
  by (simp add: params_def window_supplied_def)

lemma patientWhere_window:
  "is_true (patientWhere e (params q) p) = (window_supplied q \<longrightarrow> matches_window e q (created_at p))"
  by (simp add: patientWhere_def params_window in_month_year_true matches_window_def is_true_True)

lemma visitWhere_window:
  "is_true (visitWhere e (params q) v) = (window_supplied q \<longrightarrow> matches_window e q (visit_date v))"
  by (simp add: visitWhere_def params_window in_month_year_true matches_window_def is_true_True)

lemma filter_patientWhere:
  "filter (\<lambda>p. is_true (patientWhere e (params q) p)) (patients d) = patients_in_window e q d"
  by (simp add: patientWhere_window patients_in_window_def)

lemma filter_visitWhere:
  "filter (\<lambda>r. is_true (visitWhere e (params q) (fst r))) (visits_join_patients d)
     = visits_in_window e q d"
  by (simp add: visitWhere_window visits_in_window_def)

lemma filter_patientWhere_and:
  "filter (\<lambda>p. is_true (sql_and (patientWhere e (params q) p) (c p))) (patients d)
     = filter (\<lambda>p. is_true (c p)) (patients_in_window e q d)"
  unfolding filter_patientWhere [symmetric] by (simp add: is_true_and conj_commute)

lemma filter_and_patientWhere:
  "filter (\<lambda>p. is_true (sql_and (c p) (patientWhere e (params q) p))) (patients d)
     = filter (\<lambda>p. is_true (c p)) (patients_in_window e q d)"
  unfolding filter_patientWhere [symmetric] by (simp add: is_true_and conj_commute)

lemma gender_query_over:
  "gender_query w d = Inr (g, d') \<Longrightarrow>
   gender_json g = gender_over (filter (\<lambda>p. is_true (w p)) (patients d)) \<and> d' = d"
  by (auto simp: gender_query_def gender_json_def gender_over_def or0_sum is_true_eq_text Let_def)

lemma bound_bindable:
  "list_all bindable (case ps of None \<Rightarrow> [] | Some (m, y) \<Rightarrow> [JStr m, JStr y])"
  by (cases ps) auto

lemma condition_counts_json:
  "conditionCounts_query (patientWhere e (params q)) d = Inr (cc, d') \<Longrightarrow>
   (case cc of (h, dm, bo) \<Rightarrow> \<lparr>hypertension_only = or0 h, diabetes_only = or0 dm, both = or0 bo\<rparr>)
     = conditionCounts (report_over (patients_in_window e q d) vs) \<and> d' = d"
  by (auto simp: conditionCounts_query_def Let_def report_over_def or0_sum filter_patientWhere
      hyp_only_true dia_only_true both_true)

text \<open>
  The summary handler, when none of its eight queries fails, returns the report over the
  patients and the visit rows in the window, and leaves the store as it was.
\<close>

lemma get_summary_report:
  "get_summary e q d =
     (if fails e 0 \<or> fails e 1 \<or> fails e 2 \<or> fails e 3 \<or> fails e 4 \<or> fails e 5 \<or> fails e 6
         \<or> fails e 7
      then (Response 500 (ErrorBody ''Internal server error''), d)
      else (Response 200 (Summary (report_over (patients_in_window e q d)
                                      (visits_in_window e q d))), d))"
proof -
  let ?ps = "params q"
  let ?bound = "case ?ps of None \<Rightarrow> [] | Some (m, y) \<Rightarrow> [JStr m, JStr y]"
  let ?pw = "patientWhere e ?ps"
  let ?P = "patients_in_window e q d"
  have b: "list_all bindable ?bound" by (rule bound_bindable)
  have q0: "count_patients ?pw d = Inr (length ?P, d)"
    by (simp add: count_patients_def filter_patientWhere)
  have q1: "count_patients (\<lambda>p. sql_and (?pw p) (sql_eq (patient_type p) (SText ''New''))) d
      = Inr (length (filter (\<lambda>p. patient_type p = SText ''New'') ?P), d)"
    by (simp add: count_patients_def filter_patientWhere_and is_true_eq_text)
  have q2: "count_patients (\<lambda>p. sql_and (?pw p) (sql_eq (patient_type p) (SText ''Repeat''))) d
      = Inr (length (filter (\<lambda>p. patient_type p = SText ''Repeat'') ?P), d)"
    by (simp add: count_patients_def filter_patientWhere_and is_true_eq_text)
  obtain cc where q3: "conditionCounts_query ?pw d = Inr (cc, d)"
    by (simp add: conditionCounts_query_def Let_def)
  obtain gd where q4: "gender_query ?pw d = Inr (gd, d)"
    by (simp add: gender_query_def Let_def)
  obtain gh where q5: "gender_query (\<lambda>p. sql_and (sql_like (conditions p) ''%Hypertension%'') (?pw p)) d
      = Inr (gh, d)"
    by (simp add: gender_query_def Let_def)
  obtain gdi where q6: "gender_query (\<lambda>p. sql_and (sql_like (conditions p) ''%Diabetes%'') (?pw p)) d
      = Inr (gdi, d)"
    by (simp add: gender_query_def Let_def)
  have q7: "recentVisits_query (visitWhere e ?ps) d
      = Inr (take 10 (order_by_visit_date_desc (visits_in_window e q d)), d)"
    by (simp add: recentVisits_query_def filter_visitWhere)
  have f3: "(case cc of (h, dm, bo) \<Rightarrow>
        \<lparr>hypertension_only = or0 h, diabetes_only = or0 dm, both = or0 bo\<rparr>)
      = conditionCounts (report_over ?P (visits_in_window e q d))"
    using condition_counts_json [OF q3] by simp
  have f4: "gender_json gd = gender_over ?P"
    using gender_query_over [OF q4] by (simp add: filter_patientWhere)
  have f5: "gender_json gh = gender_over (filter (\<lambda>p. mentions ''Hypertension'' (conditions p)) ?P)"
    using gender_query_over [OF q5] by (simp add: filter_and_patientWhere hyp_true)
  have f6: "gender_json gdi = gender_over (filter (\<lambda>p. mentions ''Diabetes'' (conditions p)) ?P)"
    using gender_query_over [OF q6] by (simp add: filter_and_patientWhere dia_true)
  have rep: "\<lparr>totalPatients = length ?P,
        newPatients = length (filter (\<lambda>p. patient_type p = SText ''New'') ?P),
        repeatPatients = length (filter (\<lambda>p. patient_type p = SText ''Repeat'') ?P),
        conditionCounts = (case cc of (h, dm, bo) \<Rightarrow>
           \<lparr>hypertension_only = or0 h, diabetes_only = or0 dm, both = or0 bo\<rparr>),
        genderDistribution = gender_json gd,
        genderByCondition_hypertension = gender_json gh,
        genderByCondition_diabetes = gender_json gdi,
        recentVisits = take 10 (order_by_visit_date_desc (visits_in_window e q d))\<rparr>
      = report_over ?P (visits_in_window e q d)"
    unfolding f3 f4 f5 f6 by (simp add: report_over_def)
  show ?thesis
    using b
    by (simp add: get_summary_def Let_def try_catch_def thenDo_def ret_def run_def
        internal_error_def q0 q1 q2 q3 q4 q5 q6 q7 rep)
qed

lemma summary_returned:
  assumes "get_summary e q d = (Response 200 (Summary r), d')"
  shows "r = report_over (patients_in_window e q d) (visits_in_window e q d)" and "d' = d"
  using assms unfolding get_summary_report by (auto split: if_splits)

lemma clinic_summary:
  "get_summary clinic_env q d =
     (Response 200 (Summary (report_over (patients_in_window clinic_env q d)
                                (visits_in_window clinic_env q d))), d)"
  unfolding get_summary_report by (simp add: clinic_env_def)

lemma two_classes:
  assumes "\<And>x. \<not> (A x \<and> B x)"
  shows "length (filter A xs) + length (filter B xs) \<le> length xs
       \<and> (length (filter A xs) + length (filter B xs) = length xs \<longleftrightarrow> (\<forall>x\<in>set xs. A x \<or> B x))"
proof (induction xs)
  case Nil
  then show ?case by simp
next
  case (Cons x xs)
  from assms [of x] Cons show ?case by (cases "A x"; cases "B x") auto
qed
















lemma may_patients: "patients_in_window clinic_env may_2024 clinic_db = [abebe]"
  by (simp add: patients_in_window_def window_supplied_def present_def may_2024_def
      matches_window_def padStart_def clinic_env_def iso_strftime_def clinic_db_def abebe_def
      kebede_def)


text \<open>
  The example of the specification: after registering Abebe (45, Male, "Hypertension,
  Diabetes") in the empty store, the summary for the month of his registration counts one
  patient, one in \<open>both\<close>, one male, and one male with hypertension.
\<close>

lemma registration_example:
  "map_option (\<lambda>r. (totalPatients r, both (conditionCounts r), male (genderDistribution r),
                      male (genderByCondition_hypertension r)))
     (summary_of (fst (get_summary clinic_env may_2024
        (snd (create_patient clinic_env
               (no_fields(''name'' := JStr ''Abebe'', ''age'' := JNum 45,
                          ''gender'' := JStr ''Male'',
                          ''conditions'' := JStr ''Hypertension, Diabetes'')) empty_db)))))
   = Some (1, 1, 1, 1)"
proof -
  let ?d = "snd (create_patient clinic_env
               (no_fields(''name'' := JStr ''Abebe'', ''age'' := JNum 45,
                          ''gender'' := JStr ''Male'',
                          ''conditions'' := JStr ''Hypertension, Diabetes'')) empty_db)"
  have "\<exists>x. patients ?d = [x] \<and> conditions x = SText ''Hypertension, Diabetes''
          \<and> gender x = SText ''Male'' \<and> created_at x = SText ''2024-05-01T10:00:00.000Z''"
    by (simp add: eval_defs example_defs)
  then obtain x where x: "patients ?d = [x]" "conditions x = SText ''Hypertension, Diabetes''"
    "gender x = SText ''Male''" "created_at x = SText ''2024-05-01T10:00:00.000Z''"
    by blast
  have m: "mentions ''Hypertension'' (SText ''Hypertension, Diabetes'')"
    "mentions ''Diabetes'' (SText ''Hypertension, Diabetes'')"
    by (simp_all add: mentions_def ascii_lower_def)
  have w: "patients_in_window clinic_env may_2024 ?d = [x]"
    by (simp add: patients_in_window_def window_supplied_def present_def may_2024_def x(1))
       (simp add: matches_window_def padStart_def clinic_env_def iso_strftime_def x)
  show ?thesis
    unfolding clinic_summary summary_of_def report_over_def w
    by (simp add: count_where_def gender_over_def x m)
qed

text \<open>
  C3, as the code has it. Over the same window, \<open>newPatients\<close> plus \<open>repeatPatients\<close> is
  at most \<open>totalPatients\<close>, and equal to it exactly when every patient in the window has
  the patient type 'New' or 'Repeat'.
\<close>

theorem new_plus_repeat:
  assumes "get_summary e q d = (Response 200 (Summary r), d')"
  shows "newPatients r + repeatPatients r \<le> totalPatients r
       \<and> (newPatients r + repeatPatients r = totalPatients r \<longleftrightarrow>
            (\<forall>p\<in>set (patients_in_window e q d).
               patient_type p = SText ''New'' \<or> patient_type p = SText ''Repeat''))"
proof -
  have r: "r = report_over (patients_in_window e q d) (visits_in_window e q d)"
    using assms by (rule summary_returned)
  have "\<And>p. \<not> (patient_type p = SText ''New'' \<and> patient_type p = SText ''Repeat'')"
    by auto
  from two_classes [of "\<lambda>p. patient_type p = SText ''New''"
      "\<lambda>p. patient_type p = SText ''Repeat''" "patients_in_window e q d", OF this]
  show ?thesis unfolding r report_over_def by simp
qed

theorem new_plus_repeat_witness:
  "get_summary clinic_env may_2024 clinic_db =
     (Response 200 (Summary (report_over (patients_in_window clinic_env may_2024 clinic_db)
                                (visits_in_window clinic_env may_2024 clinic_db))), clinic_db)
   \<and> totalPatients (report_over (patients_in_window clinic_env may_2024 clinic_db)
                                (visits_in_window clinic_env may_2024 clinic_db)) = 1
   \<and> newPatients (report_over (patients_in_window clinic_env may_2024 clinic_db)
                                (visits_in_window clinic_env may_2024 clinic_db))
     + repeatPatients (report_over (patients_in_window clinic_env may_2024 clinic_db)
                                (visits_in_window clinic_env may_2024 clinic_db)) = 1"
proof -
  note s = clinic_summary [of may_2024 clinic_db]
  have t: "totalPatients (report_over (patients_in_window clinic_env may_2024 clinic_db)
                                (visits_in_window clinic_env may_2024 clinic_db)) = 1"
    by (simp add: report_over_def may_patients)
  have "\<forall>p\<in>set (patients_in_window clinic_env may_2024 clinic_db).
          patient_type p = SText ''New'' \<or> patient_type p = SText ''Repeat''"
    by (simp add: may_patients abebe_def)
  with new_plus_repeat [OF s] s t show ?thesis by simp
qed

text \<open>
  C3 as stated fails. The update handler stores the patient type it is sent, and NULL when
  it is sent none: after such an update of Kebede the summary counts two patients, none
  'New' and one 'Repeat'.
\<close>

theorem new_plus_repeat_short:
  "map_option totalPatients (summary_of (fst (get_summary clinic_env all_time
      (snd (update_patient clinic_env (Some 2) (no_fields(''name'' := JStr ''Kebede'')) clinic_db)))))
     = Some 2
   \<and> map_option newPatients (summary_of (fst (get_summary clinic_env all_time
      (snd (update_patient clinic_env (Some 2) (no_fields(''name'' := JStr ''Kebede'')) clinic_db)))))
     = Some 0
   \<and> map_option repeatPatients (summary_of (fst (get_summary clinic_env all_time
      (snd (update_patient clinic_env (Some 2) (no_fields(''name'' := JStr ''Kebede'')) clinic_db)))))
     = Some 1"
proof -
  have d: "patients (snd (update_patient clinic_env (Some 2) (no_fields(''name'' := JStr ''Kebede''))
              clinic_db)) = [abebe, set_fields clinic_env (no_fields(''name'' := JStr ''Kebede'')) kebede]"
    by (simp add: update_patient_def handler_defs update_params_def update_patient_row_def
        set_where_def example_defs)
  have w: "\<not> window_supplied all_time"
    by (simp add: window_supplied_def all_time_def present_def)
  show ?thesis
    unfolding clinic_summary summary_of_def report_over_def patients_in_window_def
    by (simp add: w d)
      (simp add: abebe_def kebede_def set_fields_def text_column_def no_fields_def)
qed







end
